theory Spec2Isabelle
  imports Main "HOL-Library.Word"
begin

section \<open>Values shared by the helpers and the LNURL flows\<close>

type_synonym byte = "8 word"

text \<open>Go's \<^verbatim>\<open>int64\<close>: a 64-bit word, read as two's complement by \<^term>\<open>sint\<close>;
  \<^verbatim>\<open>+\<close> wraps around.\<close>

type_synonym int64 = "64 word"

text \<open>A Go \<^verbatim>\<open>error\<close> value. \<open>Error m\<close> is an error of an external collaborator whose
  \<^verbatim>\<open>Error()\<close> text is \<open>m\<close>; \<open>ErrorsNew m\<close> is \<^verbatim>\<open>errors.New(m)\<close>; the other two are
  the errors of \<^verbatim>\<open>encoding/hex\<close>.\<close>

datatype error = Error string | ErrorsNew string | InvalidByteError char | ErrLength

text \<open>A Go string is a sequence of bytes; \<^verbatim>\<open>[]byte(s)\<close> reads them.\<close>

definition bytesOf :: "string \<Rightarrow> byte list" where
  "bytesOf s = map of_char s"

subsection \<open>Hexadecimal text\<close>

definition hexdigit :: "nat \<Rightarrow> char" where
  "hexdigit n = ''0123456789abcdef'' ! (n mod 16)"

text \<open>\<^verbatim>\<open>hex.EncodeToString\<close> and \<^verbatim>\<open>fmt.Sprintf("%x", bytes)\<close>: two lowercase digits a byte.\<close>

definition hexEncode :: "byte list \<Rightarrow> string" where
  "hexEncode bs = concat (map (\<lambda>b. [hexdigit (unat b div 16), hexdigit (unat b mod 16)]) bs)"

definition fromHexChar :: "char \<Rightarrow> nat option" where
  "fromHexChar c =
     (let n = (of_char c :: nat)
      in if 48 \<le> n \<and> n \<le> 57 then Some (n - 48)
         else if 97 \<le> n \<and> n \<le> 102 then Some (n - 87)
         else if 65 \<le> n \<and> n \<le> 70 then Some (n - 55)
         else None)"

text \<open>\<^verbatim>\<open>hex.DecodeString\<close>: the bytes decoded before the first fault, and the fault.\<close>

fun hexDecodeString :: "string \<Rightarrow> byte list \<times> error option" where
  "hexDecodeString [] = ([], None)"
| "hexDecodeString [p] =
     (case fromHexChar p of
        None \<Rightarrow> ([], Some (InvalidByteError p))
      | Some a \<Rightarrow> ([], Some ErrLength))"
| "hexDecodeString (p # q # r) =
     (case fromHexChar p of
        None \<Rightarrow> ([], Some (InvalidByteError p))
      | Some a \<Rightarrow>
          (case fromHexChar q of
             None \<Rightarrow> ([], Some (InvalidByteError q))
           | Some b \<Rightarrow>
               (case hexDecodeString r of (bs, e) \<Rightarrow> (word_of_nat (a * 16 + b) # bs, e))))"

subsection \<open>Decimal text\<close>

fun showNat :: "nat \<Rightarrow> string" where
  "showNat n = (if n < 10 then [hexdigit n] else showNat (n div 10) @ [hexdigit (n mod 10)])"

text \<open>\<^verbatim>\<open>fmt.Sprintf("%d", n)\<close>.\<close>

definition showInt :: "int \<Rightarrow> string" where
  "showInt i = (if i < 0 then CHR ''-'' # showNat (nat (- i)) else showNat (nat i))"

definition isDigit :: "char \<Rightarrow> bool" where
  "isDigit c = (48 \<le> (of_char c :: nat) \<and> (of_char c :: nat) \<le> 57)"

fun digitsValue :: "string \<Rightarrow> nat \<Rightarrow> nat option" where
  "digitsValue [] acc = Some acc"
| "digitsValue (c # cs) acc =
     (if isDigit c then digitsValue cs (acc * 10 + ((of_char c :: nat) - 48)) else None)"

text \<open>\<^verbatim>\<open>strconv.Atoi\<close> on a 64-bit platform: an optional sign, then one decimal digit or
  more, the value within the range of \<^verbatim>\<open>int\<close>; \<open>None\<close> is a non-nil error (syntax or range).\<close>

definition Atoi :: "string \<Rightarrow> int option" where
  "Atoi s =
     (let neg = (s \<noteq> [] \<and> hd s = CHR ''-'');
          ds = (if s \<noteq> [] \<and> (hd s = CHR ''-'' \<or> hd s = CHR ''+'') then tl s else s)
      in if ds = [] then None
         else (case digitsValue ds 0 of
                 None \<Rightarrow> None
               | Some n \<Rightarrow>
                   (let v = (if neg then - int n else int n)
                    in if - (2 ^ 63) \<le> v \<and> v < 2 ^ 63 then Some v else None)))"

section \<open>helpers.go: parseSatoshis\<close>

text \<open>A value of \<^verbatim>\<open>docopt.Opts\<close> (\<^verbatim>\<open>map[string]interface{}\<close>): what docopt stores.\<close>

datatype optval = OptNil | OptBool bool | OptInt int | OptString string | OptStrings "string list"

definition menuItems :: "string \<rightharpoonup> int" where
  "menuItems = map_of [(''popcorn'', 27), (''piparote'', 88), (''banana'', 777)]"

definition parseSatoshis :: "(string \<rightharpoonup> optval) \<Rightarrow> int \<times> error option" where
  "parseSatoshis opts =
     (case opts ''<satoshis>'' of
        Some (OptString amt) \<Rightarrow>
          (case Atoi amt of
             Some sats \<Rightarrow> (sats, None)
           | None \<Rightarrow>
               (case menuItems amt of
                  Some sats \<Rightarrow> (sats, None)
                | None \<Rightarrow> (0, Some (ErrorsNew (CHR 0x27 # ''satoshis'' @ CHR 0x27 # '' param invalid'')))))
      | _ \<Rightarrow> (0, Some (ErrorsNew (CHR 0x27 # ''satoshis'' @ CHR 0x27 # '' param missing''))))"

section \<open>helpers.go: calculateHash\<close>

text \<open>\<^verbatim>\<open>sha256.Sum256\<close> belongs to Go's library: the digest function is a parameter.\<close>

definition calculateHash :: "(byte list \<Rightarrow> byte list) \<Rightarrow> string \<Rightarrow> string" where
  "calculateHash sum256 data = hexEncode (sum256 (bytesOf data))"

section \<open>helpers.go: the registry of payment waiters\<close>

text \<open>
  \<open>waitingPaymentSuccesses\<close> maps a payment hash to the channels registered for it, in
  order. A channel made by \<^verbatim>\<open>make(chan string)\<close> is unbuffered: it is named by a number,
  \<open>nextChan\<close> being the next fresh one. \<open>receiving\<close> holds the channels on which a task is
  blocked in \<^verbatim>\<open><-ch\<close> at this moment, and \<open>received\<close> the value each receiver was handed.
\<close>

record broker =
  waitingPaymentSuccesses :: "string \<rightharpoonup> nat list"
  nextChan :: nat
  receiving :: "nat set"
  received :: "nat \<rightharpoonup> string"

definition waitPaymentSuccess :: "string \<Rightarrow> broker \<Rightarrow> nat \<times> broker" where
  "waitPaymentSuccess hash b =
     (let wait = nextChan b
      in (wait,
          b\<lparr>nextChan := Suc wait,
            waitingPaymentSuccesses := (waitingPaymentSuccesses b)(hash \<mapsto>
              (case waitingPaymentSuccesses b hash of
                 Some arr \<Rightarrow> arr @ [wait]
               | None \<Rightarrow> [wait]))\<rparr>))"

text \<open>\<^verbatim>\<open>select { case ch <- v: default: }\<close>: the send happens only when a receiver is
  blocked on the channel, which then holds the value and receives no more.\<close>

definition trySend :: "string \<Rightarrow> nat \<Rightarrow> broker \<Rightarrow> broker" where
  "trySend v ch b =
     (if ch \<in> receiving b
      then b\<lparr>receiving := receiving b - {ch}, received := (received b)(ch \<mapsto> v)\<rparr>
      else b)"

definition resolveWaitingPaymentSuccess :: "string \<Rightarrow> string \<Rightarrow> broker \<Rightarrow> broker" where
  "resolveWaitingPaymentSuccess hash preimage b =
     (case waitingPaymentSuccesses b hash of
        Some chans \<Rightarrow>
          (let b' = fold (trySend preimage) chans b
           in b'\<lparr>waitingPaymentSuccesses := (waitingPaymentSuccesses b')(hash := None)\<rparr>)
      | None \<Rightarrow> b)"

text \<open>What the tasks owning the handles do between two calls of the registry: some begin
  to receive, so the set of blocked receivers becomes \<open>R\<close>.\<close>

definition tasksReceive :: "nat set \<Rightarrow> broker \<Rightarrow> broker" where
  "tasksReceive R b = b\<lparr>receiving := R\<rparr>"

definition waitersOf :: "broker \<Rightarrow> string \<Rightarrow> nat list" where
  "waitersOf b hash = (case waitingPaymentSuccesses b hash of None \<Rightarrow> [] | Some chans \<Rightarrow> chans)"

text \<open>The states of the registry that the program reaches: it starts empty
  (\<^verbatim>\<open>cmap.New()\<close>), and only the two functions above write it.\<close>

definition emptyBroker :: broker where
  "emptyBroker =
     \<lparr>waitingPaymentSuccesses = Map.empty, nextChan = 0, receiving = {}, received = Map.empty\<rparr>"

inductive reachable :: "broker \<Rightarrow> bool" where
  start: "reachable emptyBroker"
| wait: "reachable b \<Longrightarrow> reachable (snd (waitPaymentSuccess hash b))"
| resolve: "reachable b \<Longrightarrow> reachable (resolveWaitingPaymentSuccess hash preimage b)"
| tasks: "reachable b \<Longrightarrow> reachable (tasksReceive R b)"

section \<open>helpers.go: checkProxyBalance\<close>

text \<open>
  A row of \<^verbatim>\<open>lightning.account_txn\<close>, and the transaction the query runs in: its rows,
  and the failure of the connection if there is one. The query sums \<open>amount\<close> and \<open>fees\<close>
  over the rows of the account and casts the difference to \<^verbatim>\<open>numeric(13)\<close>, which fails
  when it has more than 13 digits.
\<close>

record account_txn =
  account_id :: int
  amount :: int
  fees :: int

record txn =
  rows :: "account_txn list"
  failure :: "error option"

definition sumOver :: "(account_txn \<Rightarrow> int) \<Rightarrow> int \<Rightarrow> account_txn list \<Rightarrow> int" where
  "sumOver col acct rs = sum_list (map col (filter (\<lambda>r. account_id r = acct) rs))"

definition proxyBalanceQuery :: "txn \<Rightarrow> int \<Rightarrow> error + int" where
  "proxyBalanceQuery t acct =
     (case failure t of
        Some e \<Rightarrow> Inl e
      | None \<Rightarrow>
          (let balance = sumOver amount acct (rows t) - sumOver fees acct (rows t)
           in if \<bar>balance\<bar> < 10 ^ 13 then Inr balance
              else Inl (Error ''numeric field overflow'')))"

text \<open>The result is the returned \<^verbatim>\<open>error\<close>: \<open>None\<close> is \<^verbatim>\<open>nil\<close>.\<close>

definition checkProxyBalance :: "txn \<Rightarrow> int \<Rightarrow> error option" where
  "checkProxyBalance t ProxyAccount =
     (case proxyBalanceQuery t ProxyAccount of
        Inl e \<Rightarrow> Some e
      | Inr proxybalance \<Rightarrow>
          if proxybalance \<noteq> 0 then Some (ErrorsNew (''proxy balance isn'' @ CHR 0x27 # ''t 0'')) else None)"

section \<open>The LNURL flows: data\<close>

text \<open>The keys of package \<^verbatim>\<open>t\<close> that the flows use.\<close>

datatype key = ERROR | LNURLERROR | LNURLAUTHSUCCESS | LNURLUNSUPPORTED | LNURLPAYPROMPT
  | LNURLPAYMETADATA | LNURLPAYSUCCESS | PROCESSING | CANCEL | PAYAMOUNT

text \<open>
  A value of a template field (\<^verbatim>\<open>t.T\<close> is \<^verbatim>\<open>map[string]interface{}\<close>): a string, the
  text \<^verbatim>\<open>err.Error()\<close> of an error, \<^verbatim>\<open>float64(x) / 1000\<close> for an \<^verbatim>\<open>int64\<close> \<open>x\<close> (kept as
  \<open>x\<close>), an \<^verbatim>\<open>int64\<close>, an \<^verbatim>\<open>error\<close> that may be \<^verbatim>\<open>nil\<close>, and \<^verbatim>\<open>fmt.Sprintf\<close> of a format and its
  arguments. The fields are listed in the order of the source.
\<close>

datatype tval = Str string | ErrorText error | Thousandth int64 | Int64 int64
  | ErrorValue "error option" | Sprintf string "tval list"

type_synonym T = "(string \<times> tval) list"

record User =
  Id :: int
  ChatId :: int
  Locale :: string

record handleLNURLOpts =
  messageId :: int
  loginSilently :: bool
  payWithoutPromptIf :: "int64 option"

record LNURLAuthParams =
  auth_Host :: string
  auth_K1 :: string
  auth_Callback :: string

record LNURLWithdrawResponse =
  withdraw_Callback :: string
  withdraw_CallbackURL_Host :: string
  withdraw_K1 :: string
  MaxWithdrawable :: int64
  DefaultDescription :: string

text \<open>\<open>Metadata_Description\<close>, \<open>Metadata_ImageBytes\<close> (\<open>None\<close> is \<^verbatim>\<open>nil\<close>) and
  \<open>Metadata_ImageExtension\<close> are what the three methods of \<^verbatim>\<open>params.Metadata\<close> return.\<close>

record LNURLPayResponse1 =
  pay_Callback :: string
  pay_CallbackURL_Host :: string
  MinSendable :: int64
  MaxSendable :: int64
  EncodedMetadata :: string
  Metadata_Description :: string
  Metadata_ImageBytes :: "byte list option"
  Metadata_ImageExtension :: string

text \<open>What \<^verbatim>\<open>lnurl.HandleLNURL\<close> returns: one of the three variants handled here, or
  any other.\<close>

datatype LNURLParams = AuthParams LNURLAuthParams | WithdrawResponse LNURLWithdrawResponse
  | PayResponse1 LNURLPayResponse1 | OtherParams

text \<open>The error of \<^verbatim>\<open>lnurl.HandleLNURL\<close>: an \<^verbatim>\<open>lnurl.LNURLErrorResponse\<close> with its
  \<^verbatim>\<open>URL.Host\<close> and \<^verbatim>\<open>Reason\<close>, or any other error.\<close>

datatype HandleLNURLError = LNURLErrorResponse string string | OtherError error

record SuccessAction =
  Tag :: string
  Message :: string
  Description :: string
  URL :: string

text \<open>The body that \<^verbatim>\<open>napping.Get\<close> decodes: \<^verbatim>\<open>lnurl.LNURLResponse\<close>, and for the pay
  callback \<^verbatim>\<open>lnurl.LNURLPayResponse2\<close>, which extends it.\<close>

record LNURLPayResponse2 =
  Status :: string
  Reason :: string
  PR :: string
  SuccessAction :: "SuccessAction option"

text \<open>The fields of \<^verbatim>\<open>decodepay.Bolt11\<close> that are read.\<close>

record Bolt11 =
  MSatoshi :: int64
  DescriptionHash :: string
  PaymentHash :: string

record makeInvoiceArgs =
  IgnoreInvoiceSizeLimit :: bool
  Msatoshi :: int64
  Desc :: string
  MessageId :: int
  SkipQR :: bool

datatype ReplyMarkup = NoMarkup | InlineKeyboardMarkup "(string \<times> string) list list" | ForceReply

text \<open>A \<^verbatim>\<open>tgbotapi.Chattable\<close>: a message (chat, replied message, markup, text), a photo
  (chat, replied message, markup, bytes, MIME type, caption) or a document (chat, file
  name, bytes, MIME type, caption).\<close>

datatype Chattable =
    MessageConfig int int ReplyMarkup string
  | PhotoConfig int int ReplyMarkup "byte list" string string
  | DocumentConfig int string "byte list" string string

text \<open>The JSON object stored for a prompt.\<close>

record PendingPayRequest =
  json_type :: string
  json_metadata :: string
  json_url :: string
  json_lnurl :: string

text \<open>
  The calls a flow makes to its collaborators, in order. \<open>Track\<close> is \<^verbatim>\<open>go u.track(...)\<close>;
  \<open>GoWaitPaymentSuccess h\<close> is the task started with \<^verbatim>\<open>go func() { ... }()\<close>, which
  registers a waiter for \<open>h\<close> and runs \<open>confirmationTask\<close> on the preimage it receives.
  \<open>RdsSet\<close> carries its expiry in seconds. Debug logging is left out.
\<close>

datatype effect =
    Notify key T
  | NotifyAsReply key T int
  | Track string T
  | NappingGet string "(string \<times> string) list"
  | MakeInvoice makeInvoiceArgs
  | SendMessage int string
  | DeleteMessage int
  | PayInvoice int string int64
  | TgSend Chattable
  | BotSend Chattable
  | RdsSet string PendingPayRequest nat
  | LogWarn string
  | Sleep nat
  | GoWaitPaymentSuccess string

text \<open>The places where a flow returns early on an error.\<close>

datatype abort = FetchFailed | InvalidK1 | SignFailed | MakeInvoiceFailed | CallbackFailed
  | CallbackStatus | CallbackError | DecodepayFailed | WrongDescriptionHash | WrongAmount
  | PayInvoiceFailed | PromptSendFailed

text \<open>The faults of the task that runs after the confirmation.\<close>

datatype panic = NilDereference | SliceOutOfRange

text \<open>
  What the collaborators answer. A private key is its number \<open>D\<close>, a public key its point
  and a signature its pair \<open>(R, S)\<close>. \<open>napping_Get\<close> answers an error, or the status and
  the decoded body; \<open>sendMessage\<close> and \<open>tgsend\<close> answer the \<^verbatim>\<open>MessageID\<close> of the message
  sent; \<open>url_Parse_Host\<close> is the \<^verbatim>\<open>Host\<close> of the parsed URL, \<open>None\<close> when \<^verbatim>\<open>url.Parse\<close>
  returns \<^verbatim>\<open>nil\<close>; \<open>Render\<close> is \<^verbatim>\<open>bundle.Render\<close>.
\<close>

record env =
  BotToken :: string
  HandleLNURL :: "string \<Rightarrow> HandleLNURLError + LNURLParams"
  Sum256 :: "byte list \<Rightarrow> byte list"
  PrivKeyFromBytes :: "byte list \<Rightarrow> nat \<times> (nat \<times> nat)"
  Sign :: "nat \<Rightarrow> byte list \<Rightarrow> error + (nat \<times> nat)"
  Serialize :: "nat \<times> nat \<Rightarrow> byte list"
  SerializeCompressed :: "nat \<times> nat \<Rightarrow> byte list"
  napping_Get :: "string \<Rightarrow> (string \<times> string) list \<Rightarrow> error + (int \<times> LNURLPayResponse2)"
  makeInvoice :: "User \<Rightarrow> makeInvoiceArgs \<Rightarrow> error + string"
  Decodepay :: "string \<Rightarrow> error + Bolt11"
  payInvoice :: "User \<Rightarrow> int \<Rightarrow> string \<Rightarrow> int64 \<Rightarrow> error + string"
  sendMessage :: "int \<Rightarrow> string \<Rightarrow> int"
  tgsend :: "Chattable \<Rightarrow> error + int"
  Render :: "string \<Rightarrow> key \<Rightarrow> T \<Rightarrow> string"
  LNURLEncode :: "string \<Rightarrow> string"
  url_Parse_Host :: "string \<Rightarrow> string option"
  Decipher :: "SuccessAction \<Rightarrow> byte list \<Rightarrow> string \<times> error option"

definition translateTemplate :: "env \<Rightarrow> key \<Rightarrow> string \<Rightarrow> T \<Rightarrow> string" where
  "translateTemplate E k locale data = Render E locale k data"

definition translate :: "env \<Rightarrow> key \<Rightarrow> string \<Rightarrow> string" where
  "translate E k locale = translateTemplate E k locale []"

definition gotStatus :: "int \<Rightarrow> string \<Rightarrow> string" where
  "gotStatus status callback = ''Got status '' @ showInt status @ '' on callback '' @ callback"

section \<open>lnurlpayFetchInvoiceAndPay\<close>

text \<open>The task started after the payment was submitted, from the moment it has received
  the preimage: the document with the raw metadata, then the success action. Its caption
  reads \<^verbatim>\<open>callbackURL.Host\<close> and \<^verbatim>\<open>inv.PaymentHash[:5]\<close> before anything is sent.\<close>

definition successText :: "env \<Rightarrow> SuccessAction \<Rightarrow> byte list \<Rightarrow> string \<times> error option" where
  "successText E sa bpreimage =
     (if Tag sa = ''message'' then (Message sa, None)
      else if Tag sa = ''url'' then (Description sa, None)
      else if Tag sa = ''aes'' then Decipher E sa bpreimage
      else ([], None))"

definition confirmationTask ::
  "env \<Rightarrow> User \<Rightarrow> string \<Rightarrow> string \<Rightarrow> string \<Rightarrow> int \<Rightarrow> LNURLPayResponse2 \<Rightarrow> Bolt11 \<Rightarrow> string
     \<Rightarrow> effect list \<times> panic option" where
  "confirmationTask E u callback metadata encodedLnurl msgId res invoice preimage =
     (let bpreimage = fst (hexDecodeString preimage)
      in case url_Parse_Host E callback of
           None \<Rightarrow> ([], Some NilDereference)
         | Some host \<Rightarrow>
             if length (PaymentHash invoice) < 5 then ([], Some SliceOutOfRange)
             else
               (let caption = translateTemplate E LNURLPAYMETADATA (Locale u)
                      [(''Domain'', Str host), (''LNURL'', Str encodedLnurl),
                       (''Hash'', Str (PaymentHash invoice)),
                       (''HashFirstChars'', Str (take 5 (PaymentHash invoice)))];
                    file = DocumentConfig (ChatId u) (encodedLnurl @ ''.json'')
                      (bytesOf metadata) ''text/json'' caption
                in case SuccessAction res of
                     None \<Rightarrow> ([BotSend file], None)
                   | Some sa \<Rightarrow>
                       (case successText E sa bpreimage of
                          (text, decerr) \<Rightarrow>
                            ([BotSend file, Sleep 2,
                              NotifyAsReply LNURLPAYSUCCESS
                                [(''Domain'', Str host), (''Text'', Str text),
                                 (''URL'', Str (URL sa)), (''DecipherError'', ErrorValue decerr)]
                                msgId],
                             None))))"

definition lnurlpayFetchInvoiceAndPay ::
  "env \<Rightarrow> User \<Rightarrow> int64 \<Rightarrow> string \<Rightarrow> string \<Rightarrow> string \<Rightarrow> int \<Rightarrow> effect list \<times> abort option" where
  "lnurlpayFetchInvoiceAndPay E u msats callback metadata encodedLnurl0 msgId =
     (let encodedLnurl = LNURLEncode E encodedLnurl0;
          query = [(''amount'', showInt (sint msats))];
          get = NappingGet callback query
      in case napping_Get E callback query of
           Inl err \<Rightarrow> ([get, Notify ERROR [(''Err'', ErrorText err)]], Some CallbackFailed)
         | Inr (status, res) \<Rightarrow>
             if status \<ge> 300
             then ([get, Notify ERROR [(''Err'', Str (gotStatus status callback))]],
                   Some CallbackStatus)
             else if Status res = ''ERROR''
             then ([get, Notify LNURLERROR
                      [(''Host'', Str (case url_Parse_Host E callback of
                                        None \<Rightarrow> ''<unknown>'' | Some h \<Rightarrow> h)),
                       (''Reason'', Str (Reason res))]],
                   Some CallbackError)
             else
               (case Decodepay E (PR res) of
                  Inl err \<Rightarrow> ([get, Notify ERROR [(''Err'', ErrorText err)]], Some DecodepayFailed)
                | Inr invoice \<Rightarrow>
                    if DescriptionHash invoice \<noteq> calculateHash (Sum256 E) metadata
                    then ([get, Notify ERROR
                             [(''Err'', Str ''Got invoice with wrong description_hash'')]],
                          Some WrongDescriptionHash)
                    else if MSatoshi invoice \<noteq> msats
                    then ([get, Notify ERROR [(''Err'', Str ''Got invoice with wrong amount.'')]],
                          Some WrongAmount)
                    else
                      (let text = PR res @ [CHR 0x0A, CHR 0x0A] @ translate E PROCESSING (Locale u);
                           processingMessage = sendMessage E (ChatId u) text;
                           sent = [get, SendMessage (ChatId u) text, PayInvoice msgId (PR res) 0]
                       in case payInvoice E u msgId (PR res) 0 of
                            Inr hash \<Rightarrow>
                              (sent @ [DeleteMessage processingMessage, GoWaitPaymentSuccess hash],
                               None)
                          | Inl err \<Rightarrow>
                              (sent @ [NotifyAsReply ERROR [(''Err'', ErrorText err)]
                                         processingMessage],
                               Some PayInvoiceFailed))))"

section \<open>handleLNURL\<close>

text \<open>The seed of the lnurl-auth key:
  \<^verbatim>\<open>fmt.Sprintf("lnurlkeyseed:%s:%d:%s", params.Host, u.Id, s.BotToken)\<close>.\<close>

definition keySeed :: "string \<Rightarrow> int \<Rightarrow> string \<Rightarrow> string" where
  "keySeed host uid token = ''lnurlkeyseed:'' @ host @ '':'' @ showInt uid @ '':'' @ token"

text \<open>The pair \<open>(sk, pk)\<close> of the \<^verbatim>\<open>LNURLAuthParams\<close> case.\<close>

definition authKey :: "env \<Rightarrow> string \<Rightarrow> int \<Rightarrow> nat \<times> (nat \<times> nat)" where
  "authKey E host uid = PrivKeyFromBytes E (Sum256 E (bytesOf (keySeed host uid (BotToken E))))"

definition lnurlAuth ::
  "env \<Rightarrow> User \<Rightarrow> LNURLAuthParams \<Rightarrow> handleLNURLOpts \<Rightarrow> effect list \<times> abort option" where
  "lnurlAuth E u params opts =
     (case authKey E (auth_Host params) (Id u) of
        (sk, pk) \<Rightarrow>
          (case hexDecodeString (auth_K1 params) of
             (k1, Some err) \<Rightarrow> ([Notify ERROR [(''Err'', ErrorText err)]], Some InvalidK1)
           | (k1, None) \<Rightarrow>
               (case Sign E sk k1 of
                  Inl err \<Rightarrow> ([Notify ERROR [(''Err'', ErrorText err)]], Some SignFailed)
                | Inr sig \<Rightarrow>
                    (let signature = hexEncode (Serialize E sig);
                         pubkey = hexEncode (SerializeCompressed E pk);
                         query = [(''sig'', signature), (''key'', pubkey)];
                         get = NappingGet (auth_Callback params) query
                     in case napping_Get E (auth_Callback params) query of
                          Inl err \<Rightarrow>
                            ([get, Notify ERROR [(''Err'', ErrorText err)]], Some CallbackFailed)
                        | Inr (status, sentsigres) \<Rightarrow>
                            if status \<ge> 300
                            then ([get, Notify ERROR
                                     [(''Err'', Str (gotStatus status (auth_Callback params)))]],
                                  Some CallbackStatus)
                            else if Status sentsigres = ''ERROR''
                            then ([get, Notify LNURLERROR
                                     [(''Host'', Str (auth_Host params)),
                                      (''Reason'', Str (Reason sentsigres))]],
                                  Some CallbackError)
                            else if \<not> loginSilently opts
                            then ([get,
                                   Notify LNURLAUTHSUCCESS
                                     [(''Host'', Str (auth_Host params)), (''PublicKey'', Str pubkey)],
                                   Track ''lnurl-auth'' [(''domain'', Str (auth_Host params))]],
                                  None)
                            else ([get], None)))))"

definition lnurlWithdraw ::
  "env \<Rightarrow> User \<Rightarrow> LNURLWithdrawResponse \<Rightarrow> handleLNURLOpts \<Rightarrow> effect list \<times> abort option" where
  "lnurlWithdraw E u params opts =
     (let args = \<lparr>IgnoreInvoiceSizeLimit = True, Msatoshi = MaxWithdrawable params,
                  Desc = DefaultDescription params, MessageId = messageId opts, SkipQR = True\<rparr>
      in case makeInvoice E u args of
           Inl err \<Rightarrow>
             ([MakeInvoice args, Notify ERROR [(''Err'', ErrorText err)]], Some MakeInvoiceFailed)
         | Inr bolt11 \<Rightarrow>
             (let query = [(''k1'', withdraw_K1 params), (''pr'', bolt11)];
                  get = NappingGet (withdraw_Callback params) query
              in case napping_Get E (withdraw_Callback params) query of
                   Inl err \<Rightarrow>
                     ([MakeInvoice args, get, Notify ERROR [(''Err'', ErrorText err)]],
                      Some CallbackFailed)
                 | Inr (status, sentinvres) \<Rightarrow>
                     if status \<ge> 300
                     then ([MakeInvoice args, get,
                            Notify ERROR
                              [(''Err'', Str (gotStatus status (withdraw_Callback params)))]],
                           Some CallbackStatus)
                     else if Status sentinvres = ''ERROR''
                     then ([MakeInvoice args, get,
                            Notify LNURLERROR
                              [(''Host'', Str (withdraw_CallbackURL_Host params)),
                               (''Reason'', Str (Reason sentinvres))]],
                           Some CallbackError)
                     else ([MakeInvoice args, get,
                            Track ''lnurl-withdraw'' [(''sats'', Int64 (MaxWithdrawable params))]],
                           None)))"

text \<open>The prompt of the \<^verbatim>\<open>LNURLPayResponse1\<close> case (the \<^verbatim>\<open>else\<close> branch). The test
  \<^verbatim>\<open>err == nil\<close> around the photo reads the error of \<^verbatim>\<open>lnurl.HandleLNURL\<close>, which is
  \<^verbatim>\<open>nil\<close> there.\<close>

definition lnurlPayPrompt ::
  "env \<Rightarrow> User \<Rightarrow> LNURLPayResponse1 \<Rightarrow> string \<Rightarrow> handleLNURLOpts \<Rightarrow> int64
     \<Rightarrow> effect list \<times> abort option" where
  "lnurlPayPrompt E u params lnurltext opts fixedAmount =
     (let tmpldata =
            [(''Domain'', Str (pay_CallbackURL_Host params)),
             (''FixedAmount'', Thousandth fixedAmount),
             (''Max'', Thousandth (MaxSendable params)),
             (''Min'', Thousandth (MinSendable params))];
          markup =
            (if 0 < sint fixedAmount
             then InlineKeyboardMarkup
                    [[(translate E CANCEL (Locale u), ''cancel='' @ showInt (Id u)),
                      (translateTemplate E PAYAMOUNT (Locale u) [(''Sats'', Thousandth fixedAmount)],
                       ''lnurlpay='' @ showInt (sint fixedAmount))]]
             else ForceReply);
          text = translateTemplate E LNURLPAYPROMPT (Locale u)
                   (tmpldata @ [(''Text'', Str (Metadata_Description params))]);
          chattable =
            (case Metadata_ImageBytes params of
               None \<Rightarrow> MessageConfig (ChatId u) (messageId opts) markup text
             | Some imagebytes \<Rightarrow>
                 PhotoConfig (ChatId u) (messageId opts) markup imagebytes
                   (''image/'' @ Metadata_ImageExtension params) text)
      in case tgsend E chattable of
           Inl err \<Rightarrow>
             ([TgSend chattable, LogWarn ''error sending lnurl-pay message''],
              Some PromptSendFailed)
         | Inr sent \<Rightarrow>
             ([TgSend chattable,
               RdsSet (''reply:'' @ showInt (Id u) @ '':'' @ showInt sent)
                 \<lparr>json_type = ''lnurlpay'', json_metadata = EncodedMetadata params,
                   json_url = pay_Callback params, json_lnurl = lnurltext\<rparr>
                 3600],
              None))"

definition lnurlPay ::
  "env \<Rightarrow> User \<Rightarrow> LNURLPayResponse1 \<Rightarrow> string \<Rightarrow> handleLNURLOpts \<Rightarrow> effect list \<times> abort option" where
  "lnurlPay E u params lnurltext opts =
     (let fixedAmount = (if MaxSendable params = MinSendable params then MaxSendable params else 0);
          track = Track ''lnurl-pay''
            [(''domain'', Str (pay_CallbackURL_Host params)),
             (''fixed'', Thousandth fixedAmount),
             (''max'', Thousandth (MaxSendable params)),
             (''min'', Thousandth (MinSendable params))]
      in case (if 0 < sint fixedAmount \<and>
                  (case payWithoutPromptIf opts of
                     None \<Rightarrow> False
                   | Some threshold \<Rightarrow> sint fixedAmount < sint (threshold + 3000))
               then lnurlpayFetchInvoiceAndPay E u fixedAmount (pay_Callback params)
                      (EncodedMetadata params) lnurltext (messageId opts)
               else lnurlPayPrompt E u params lnurltext opts fixedAmount) of
           (acts, r) \<Rightarrow> (track # acts, r))"

definition handleLNURL ::
  "env \<Rightarrow> User \<Rightarrow> string \<Rightarrow> handleLNURLOpts \<Rightarrow> effect list \<times> abort option" where
  "handleLNURL E u lnurltext opts =
     (case HandleLNURL E lnurltext of
        Inl (LNURLErrorResponse host reason) \<Rightarrow>
          ([Notify LNURLERROR [(''Host'', Str host), (''Reason'', Str reason)]], Some FetchFailed)
      | Inl (OtherError err) \<Rightarrow>
          ([Notify ERROR [(''Err'', Sprintf ''failed to fetch lnurl params: %s'' [ErrorText err])]],
           Some FetchFailed)
      | Inr (AuthParams params) \<Rightarrow> lnurlAuth E u params opts
      | Inr (WithdrawResponse params) \<Rightarrow> lnurlWithdraw E u params opts
      | Inr (PayResponse1 params) \<Rightarrow> lnurlPay E u params lnurltext opts
      | Inr OtherParams \<Rightarrow> ([NotifyAsReply LNURLUNSUPPORTED [] (messageId opts)], None))"

definition handleLNURLPayConfirmation ::
  "env \<Rightarrow> User \<Rightarrow> int64 \<Rightarrow> PendingPayRequest \<Rightarrow> int \<Rightarrow> effect list \<times> abort option" where
  "handleLNURLPayConfirmation E u msats data msgId =
     lnurlpayFetchInvoiceAndPay E u msats (json_url data) (json_metadata data) (json_lnurl data)
       msgId"

section \<open>Reading a trace\<close>

text \<open>A message of \<^verbatim>\<open>u.notify\<close> or \<^verbatim>\<open>u.notifyAsReply\<close>.\<close>

fun isNotification :: "effect \<Rightarrow> bool" where
  "isNotification (Notify k d) = True"
| "isNotification (NotifyAsReply k d m) = True"
| "isNotification _ = False"

fun isNappingGet :: "effect \<Rightarrow> bool" where
  "isNappingGet (NappingGet url q) = True"
| "isNappingGet _ = False"

fun isTgSend :: "effect \<Rightarrow> bool" where
  "isTgSend (TgSend c) = True"
| "isTgSend _ = False"

fun isPayInvoice :: "effect \<Rightarrow> bool" where
  "isPayInvoice (PayInvoice m b f) = True"
| "isPayInvoice _ = False"

text \<open>What the auth flow reports on success: the notification and the tracking event.\<close>

fun isAuthSuccessReport :: "effect \<Rightarrow> bool" where
  "isAuthSuccessReport (Notify k d) = (k = LNURLAUTHSUCCESS)"
| "isAuthSuccessReport (Track n d) = True"
| "isAuthSuccessReport _ = False"

fun isDocument :: "effect \<Rightarrow> bool" where
  "isDocument (BotSend (DocumentConfig c n b m cap)) = True"
| "isDocument _ = False"

fun isPaySuccess :: "effect \<Rightarrow> bool" where
  "isPaySuccess (NotifyAsReply k d m) = (k = LNURLPAYSUCCESS)"
| "isPaySuccess _ = False"

fun isErrorNotification :: "effect \<Rightarrow> bool" where
  "isErrorNotification (Notify k d) = (k = ERROR \<or> k = LNURLERROR)"
| "isErrorNotification (NotifyAsReply k d m) = (k = ERROR \<or> k = LNURLERROR)"
| "isErrorNotification _ = False"

section \<open>The failures the flows can meet\<close>

text \<open>
  The failures are read off the answers of the collaborators, not off what the flows do
  with them. A callback request fails when it has no answer, when the status is 300 or
  more, or when the body has the status ERROR.
\<close>

definition callbackFails :: "error + int \<times> LNURLPayResponse2 \<Rightarrow> bool" where
  "callbackFails answer =
     (case answer of
        Inl err \<Rightarrow> True
      | Inr (status, body) \<Rightarrow> 300 \<le> status \<or> Status body = ''ERROR'')"

text \<open>The settlement fails when its callback request fails, when the invoice does not
  decode, when its description hash or its amount is not the expected one, or when
  \<open>payInvoice\<close> returns an error.\<close>

definition settlementFails :: "env \<Rightarrow> User \<Rightarrow> int64 \<Rightarrow> string \<Rightarrow> string \<Rightarrow> int \<Rightarrow> bool" where
  "settlementFails E u msats callback metadata msgId =
     (case napping_Get E callback [(''amount'', showInt (sint msats))] of
        Inl err \<Rightarrow> True
      | Inr (status, res) \<Rightarrow>
          300 \<le> status \<or> Status res = ''ERROR'' \<or>
          (case Decodepay E (PR res) of
             Inl err \<Rightarrow> True
           | Inr invoice \<Rightarrow>
               DescriptionHash invoice \<noteq> hexEncode (Sum256 E (bytesOf metadata)) \<or>
               MSatoshi invoice \<noteq> msats \<or>
               isl (payInvoice E u msgId (PR res) 0)))"

text \<open>The auth flow fails when the challenge is not hexadecimal, when signing fails, or
  when the callback request that carries the signature and the key fails.\<close>

definition authFails :: "env \<Rightarrow> User \<Rightarrow> LNURLAuthParams \<Rightarrow> bool" where
  "authFails E u params =
     (snd (hexDecodeString (auth_K1 params)) \<noteq> None \<or>
      (case Sign E (fst (authKey E (auth_Host params) (Id u)))
              (fst (hexDecodeString (auth_K1 params))) of
         Inl err \<Rightarrow> True
       | Inr sig \<Rightarrow>
           callbackFails (napping_Get E (auth_Callback params)
             [(''sig'', hexEncode (Serialize E sig)),
              (''key'', hexEncode (SerializeCompressed E
                          (snd (authKey E (auth_Host params) (Id u)))))])))"

text \<open>The withdraw flow fails when no invoice can be made, or when the callback request
  that carries the invoice fails.\<close>

definition withdrawFails :: "env \<Rightarrow> User \<Rightarrow> LNURLWithdrawResponse \<Rightarrow> handleLNURLOpts \<Rightarrow> bool" where
  "withdrawFails E u params opts =
     (case makeInvoice E u
             \<lparr>IgnoreInvoiceSizeLimit = True, Msatoshi = MaxWithdrawable params,
              Desc = DefaultDescription params, MessageId = messageId opts, SkipQR = True\<rparr> of
        Inl err \<Rightarrow> True
      | Inr bolt11 \<Rightarrow>
          callbackFails (napping_Get E (withdraw_Callback params)
            [(''k1'', withdraw_K1 params), (''pr'', bolt11)]))"

text \<open>The failures of \<open>handleLNURL\<close>, the failure to send the prompt apart: the link
  cannot be fetched, or the flow of its variant fails; for a pay link that is the
  settlement, when the amount is fixed, positive and below the threshold plus 3000.\<close>

definition handleFails :: "env \<Rightarrow> User \<Rightarrow> string \<Rightarrow> handleLNURLOpts \<Rightarrow> bool" where
  "handleFails E u lnurltext opts =
     (case HandleLNURL E lnurltext of
        Inl err \<Rightarrow> True
      | Inr (AuthParams params) \<Rightarrow> authFails E u params
      | Inr (WithdrawResponse params) \<Rightarrow> withdrawFails E u params opts
      | Inr (PayResponse1 params) \<Rightarrow>
          MaxSendable params = MinSendable params \<and> 0 < sint (MaxSendable params) \<and>
          (case payWithoutPromptIf opts of
             None \<Rightarrow> False
           | Some threshold \<Rightarrow> sint (MaxSendable params) < sint (threshold + 3000)) \<and>
          settlementFails E u (MaxSendable params) (pay_Callback params)
            (EncodedMetadata params) (messageId opts)
      | Inr OtherParams \<Rightarrow> False)"

section \<open>Sample collaborators\<close>

text \<open>
  Collaborators for the concrete runs below. The digest and the key derivation are
  stand-ins for the libraries: the digest is the first 32 bytes of the input and the key
  is the number those bytes spell, so, as SHA-256 and the curve do in practice, they tell
  the sample seeds apart. The callback answers 200 with status OK.
\<close>

definition bytesToNat :: "byte list \<Rightarrow> nat" where
  "bytesToNat bs = foldl (\<lambda>n b. n * 256 + unat b) 0 bs"

definition sampleEnv :: env where
  "sampleEnv =
     \<lparr>BotToken = ''token'',
      HandleLNURL = (\<lambda>t. Inr OtherParams),
      Sum256 = (\<lambda>bs. take 32 bs),
      PrivKeyFromBytes = (\<lambda>bs. (bytesToNat bs, (bytesToNat bs, 0))),
      Sign = (\<lambda>sk k1. Inr (sk, length k1)),
      Serialize = (\<lambda>(r, s). [word_of_nat r, word_of_nat s]),
      SerializeCompressed = (\<lambda>(x, y). [2, word_of_nat x]),
      napping_Get = (\<lambda>url q. Inr (200,
        \<lparr>Status = ''OK'', Reason = [], PR = ''lnbc1'', SuccessAction = None\<rparr>)),
      makeInvoice = (\<lambda>u a. Inr ''lnbc1''),
      Decodepay = (\<lambda>pr. Inr \<lparr>MSatoshi = 1000, DescriptionHash = [], PaymentHash = ''0011223344''\<rparr>),
      payInvoice = (\<lambda>u m pr f. Inr ''0011223344''),
      sendMessage = (\<lambda>c t. 5),
      tgsend = (\<lambda>c. Inr 6),
      Render = (\<lambda>l k d. []),
      LNURLEncode = (\<lambda>t. t),
      url_Parse_Host = (\<lambda>url. Some ''example.com''),
      Decipher = (\<lambda>sa p. ([], None))\<rparr>"

definition sampleUser :: User where
  "sampleUser = \<lparr>Id = 1, ChatId = 1, Locale = ''en''\<rparr>"

definition sampleOpts :: handleLNURLOpts where
  "sampleOpts = \<lparr>messageId = 3, loginSilently = False, payWithoutPromptIf = Some 0\<rparr>"

definition samplePay :: "int64 \<Rightarrow> int64 \<Rightarrow> LNURLPayResponse1" where
  "samplePay lo hi =
     \<lparr>pay_Callback = ''https://example.com/cb'', pay_CallbackURL_Host = ''example.com'',
      MinSendable = lo, MaxSendable = hi, EncodedMetadata = ''[]'',
      Metadata_Description = [], Metadata_ImageBytes = None, Metadata_ImageExtension = []\<rparr>"

definition sampleWithdraw :: LNURLWithdrawResponse where
  "sampleWithdraw =
     \<lparr>withdraw_Callback = ''https://example.com/w'', withdraw_CallbackURL_Host = ''example.com'',
      withdraw_K1 = ''00ff'', MaxWithdrawable = 5000, DefaultDescription = ''w''\<rparr>"

definition sampleAuth :: "string \<Rightarrow> LNURLAuthParams" where
  "sampleAuth host = \<lparr>auth_Host = host, auth_K1 = ''00ff'', auth_Callback = ''https://'' @ host\<rparr>"

section \<open>Properties of the registry of payment waiters\<close>

lemma fold_trySend_waiting:
  "waitingPaymentSuccesses (fold (trySend v) chans b) = waitingPaymentSuccesses b"
  by (induction chans arbitrary: b) (simp_all add: trySend_def)

lemma fold_trySend_nextChan: "nextChan (fold (trySend v) chans b) = nextChan b"
  by (induction chans arbitrary: b) (simp_all add: trySend_def)

lemma fold_trySend_keeps:
  "received b c = Some v \<Longrightarrow> received (fold (trySend v) chans b) c = Some v"
  by (induction chans arbitrary: b) (simp_all add: trySend_def)

lemma fold_trySend_delivers:
  "c \<in> set chans \<Longrightarrow> c \<in> receiving b \<Longrightarrow> received (fold (trySend v) chans b) c = Some v"
proof (induction chans arbitrary: b)
  case Nil
  then show ?case by simp
next
  case (Cons ch chans)
  show ?case
  proof (cases "ch = c")
    case True
    with Cons.prems have "received (trySend v ch b) c = Some v"
      by (simp add: trySend_def)
    then show ?thesis by (simp add: fold_trySend_keeps)
  next
    case False
    with Cons.prems have "c \<in> set chans" and "c \<in> receiving (trySend v ch b)"
      by (auto simp: trySend_def)
    then show ?thesis using Cons.IH by simp
  qed
qed

lemma fold_trySend_skips:
  "c \<notin> receiving b \<Longrightarrow> received (fold (trySend v) chans b) c = received b c"
proof (induction chans arbitrary: b)
  case Nil
  then show ?case by simp
next
  case (Cons ch chans)
  have "c \<notin> receiving (trySend v ch b)" and "received (trySend v ch b) c = received b c"
    using Cons.prems by (auto simp: trySend_def)
  then show ?case using Cons.IH by simp
qed

lemma reachable_nonempty: "reachable b \<Longrightarrow> waitingPaymentSuccesses b hash \<noteq> Some []"
proof (induction rule: reachable.induct)
  case start
  then show ?case by (simp add: emptyBroker_def)
next
  case (wait b h)
  then show ?case by (auto simp: waitPaymentSuccess_def Let_def split: option.splits)
next
  case (resolve b h p)
  then show ?case
    by (auto simp: resolveWaitingPaymentSuccess_def Let_def fold_trySend_waiting split: option.splits)
next
  case (tasks b R)
  then show ?case by (simp add: tasksReceive_def)
qed

text \<open>
  Claim C7. For a payment hash with no registered waiter, in any state the registry can
  reach, \<open>resolveWaitingPaymentSuccess\<close> changes nothing: it returns the state it was
  given, the registry and the channels included, and it has no error to signal (the Go
  function returns nothing).
\<close>

theorem resolve_without_waiters_noop:
  assumes "reachable b" and "waitersOf b hash = []"
  shows "resolveWaitingPaymentSuccess hash preimage b = b"
proof -
  from assms have "waitingPaymentSuccesses b hash = None"
    using reachable_nonempty [of b hash] by (auto simp: waitersOf_def split: option.splits)
  then show ?thesis by (simp add: resolveWaitingPaymentSuccess_def)
qed

theorem resolve_without_waiters_noop_witness:
  "reachable emptyBroker \<and> waitersOf emptyBroker ''00ff'' = [] \<and>
   resolveWaitingPaymentSuccess ''00ff'' ''aa'' emptyBroker = emptyBroker"
  using resolve_without_waiters_noop [of emptyBroker "''00ff''" "''aa''"] reachable.start
  by (simp add: waitersOf_def emptyBroker_def)

text \<open>
  Claim C3. Two calls of \<open>waitPaymentSuccess\<close> for one hash register two distinct
  channels \<open>c1\<close> and \<open>c2\<close>. Whatever set \<open>R\<close> of channels has a blocked receiver when
  \<open>resolveWaitingPaymentSuccess\<close> runs, each of \<open>c1\<close>, \<open>c2\<close> that is in \<open>R\<close> is handed the
  preimage \<open>P\<close>, each that is not is skipped, and the entry of the hash is gone afterwards
  in every case.
\<close>

theorem two_waiters_resolved:
  assumes w1: "waitPaymentSuccess hash b = (c1, b1)"
    and w2: "waitPaymentSuccess hash b1 = (c2, b2)"
    and r: "resolveWaitingPaymentSuccess hash P (tasksReceive R b2) = b4"
  shows "c1 \<noteq> c2 \<and> (c1 \<in> R \<longrightarrow> received b4 c1 = Some P) \<and> (c2 \<in> R \<longrightarrow> received b4 c2 = Some P)
    \<and> (c1 \<notin> R \<longrightarrow> received b4 c1 = received b c1) \<and> (c2 \<notin> R \<longrightarrow> received b4 c2 = received b c2)
    \<and> waitingPaymentSuccesses b4 hash = None"
proof -
  let ?b3 = "tasksReceive R b2"
  have c: "c2 = Suc c1" using w1 w2 by (auto simp: waitPaymentSuccess_def Let_def)
  have "waitingPaymentSuccesses b2 hash = Some (waitersOf b hash @ [c1, c2])"
    using w1 w2 by (auto simp: waitPaymentSuccess_def waitersOf_def Let_def split: option.splits)
  then have w: "waitingPaymentSuccesses ?b3 hash = Some (waitersOf b hash @ [c1, c2])"
    by (simp add: tasksReceive_def)
  have rec: "received ?b3 = received b" "receiving ?b3 = R"
    using w1 w2 by (auto simp: waitPaymentSuccess_def tasksReceive_def Let_def)
  have b4: "b4 = (fold (trySend P) (waitersOf b hash @ [c1, c2]) ?b3)
      \<lparr>waitingPaymentSuccesses :=
         (waitingPaymentSuccesses (fold (trySend P) (waitersOf b hash @ [c1, c2]) ?b3))(hash := None)\<rparr>"
    using r w by (simp add: resolveWaitingPaymentSuccess_def Let_def)
  have d: "\<And>c. c \<in> {c1, c2} \<Longrightarrow> c \<in> R \<Longrightarrow> received b4 c = Some P"
    using fold_trySend_delivers [of _ "waitersOf b hash @ [c1, c2]" ?b3 P] rec
    by (subst b4) auto
  have s: "\<And>c. c \<notin> R \<Longrightarrow> received b4 c = received b c"
    using fold_trySend_skips [of _ ?b3 P "waitersOf b hash @ [c1, c2]"] rec
    by (subst b4) auto
  have "waitingPaymentSuccesses b4 hash = None" by (subst b4) simp
  with c d s show ?thesis by simp
qed

theorem two_waiters_resolved_witness:
  "received (resolveWaitingPaymentSuccess ''00ff'' ''aa''
      (tasksReceive {0, 1}
        (snd (waitPaymentSuccess ''00ff'' (snd (waitPaymentSuccess ''00ff'' emptyBroker)))))) 0
     = Some ''aa'' \<and>
   received (resolveWaitingPaymentSuccess ''00ff'' ''aa''
      (tasksReceive {0, 1}
        (snd (waitPaymentSuccess ''00ff'' (snd (waitPaymentSuccess ''00ff'' emptyBroker)))))) 1
     = Some ''aa'' \<and>
   waitingPaymentSuccesses (resolveWaitingPaymentSuccess ''00ff'' ''aa''
      (tasksReceive {0, 1}
        (snd (waitPaymentSuccess ''00ff'' (snd (waitPaymentSuccess ''00ff'' emptyBroker))))))
      ''00ff'' = None"
proof -
  let ?b1 = "snd (waitPaymentSuccess ''00ff'' emptyBroker)"
  let ?b2 = "snd (waitPaymentSuccess ''00ff'' ?b1)"
  have w1: "waitPaymentSuccess ''00ff'' emptyBroker = (0, ?b1)"
    by (simp add: waitPaymentSuccess_def emptyBroker_def)
  have w2: "waitPaymentSuccess ''00ff'' ?b1 = (1, ?b2)"
    by (simp add: waitPaymentSuccess_def emptyBroker_def)
  show ?thesis
    using two_waiters_resolved [OF w1 w2 refl, where P = "''aa''" and R = "{0, 1}"] by simp
qed


section \<open>Properties of parseSatoshis\<close>

lemma Atoi_menu: "Atoi ''popcorn'' = None" "Atoi ''piparote'' = None" "Atoi ''banana'' = None"
  by (simp_all add: Atoi_def isDigit_def)

text \<open>
  Claim C10. When the parameter is a string that \<open>Atoi\<close> reads as a decimal integer,
  \<open>parseSatoshis\<close> returns that integer. When it is a string that \<open>Atoi\<close> rejects, the
  result is 27 for \<open>popcorn\<close>, 88 for \<open>piparote\<close>, 777 for \<open>banana\<close>, and for every other
  string 0 with the error "param invalid". When the parameter is missing or is not a
  string, the result is 0 with the error "param missing". The three menu words are
  themselves rejected by \<open>Atoi\<close>.
\<close>

theorem parseSatoshis_menu:
  "(\<forall>amt. opts ''<satoshis>'' = Some (OptString amt) \<longrightarrow>
      (\<forall>n. Atoi amt = Some n \<longrightarrow> parseSatoshis opts = (n, None)) \<and>
      (Atoi amt = None \<longrightarrow>
         parseSatoshis opts =
           (if amt = ''popcorn'' then (27, None)
            else if amt = ''piparote'' then (88, None)
            else if amt = ''banana'' then (777, None)
            else (0, Some (ErrorsNew (CHR 0x27 # ''satoshis'' @ CHR 0x27 # '' param invalid'')))))) \<and>
   ((\<forall>amt. opts ''<satoshis>'' \<noteq> Some (OptString amt)) \<longrightarrow>
      parseSatoshis opts =
        (0, Some (ErrorsNew (CHR 0x27 # ''satoshis'' @ CHR 0x27 # '' param missing'')))) \<and>
   Atoi ''popcorn'' = None \<and> Atoi ''piparote'' = None \<and> Atoi ''banana'' = None"
proof -
  have a: "parseSatoshis opts = (n, None)"
    if "opts ''<satoshis>'' = Some (OptString amt)" "Atoi amt = Some n" for amt n
    using that by (simp add: parseSatoshis_def)
  have b: "parseSatoshis opts =
           (if amt = ''popcorn'' then (27, None)
            else if amt = ''piparote'' then (88, None)
            else if amt = ''banana'' then (777, None)
            else (0, Some (ErrorsNew (CHR 0x27 # ''satoshis'' @ CHR 0x27 # '' param invalid''))))"
    if "opts ''<satoshis>'' = Some (OptString amt)" "Atoi amt = None" for amt
    using that by (simp add: parseSatoshis_def menuItems_def)
  have c: "parseSatoshis opts =
        (0, Some (ErrorsNew (CHR 0x27 # ''satoshis'' @ CHR 0x27 # '' param missing'')))"
    if "\<forall>amt. opts ''<satoshis>'' \<noteq> Some (OptString amt)"
    using that by (auto simp: parseSatoshis_def split: option.splits optval.splits)
  from a b c Atoi_menu show ?thesis by blast
qed

theorem parseSatoshis_menu_witness:
  "parseSatoshis [''<satoshis>'' \<mapsto> OptString ''banana''] = (777, None) \<and>
   parseSatoshis [''<satoshis>'' \<mapsto> OptString ''42''] = (42, None) \<and>
   parseSatoshis [''<satoshis>'' \<mapsto> OptString ''apple''] =
     (0, Some (ErrorsNew (CHR 0x27 # ''satoshis'' @ CHR 0x27 # '' param invalid''))) \<and>
   parseSatoshis Map.empty =
     (0, Some (ErrorsNew (CHR 0x27 # ''satoshis'' @ CHR 0x27 # '' param missing'')))"
proof -
  have n: "Atoi ''42'' = Some 42" "Atoi ''apple'' = None"
    by (simp_all add: Atoi_def isDigit_def)
  show ?thesis
    using parseSatoshis_menu [of "[''<satoshis>'' \<mapsto> OptString ''banana'']"]
      parseSatoshis_menu [of "[''<satoshis>'' \<mapsto> OptString ''42'']"]
      parseSatoshis_menu [of "[''<satoshis>'' \<mapsto> OptString ''apple'']"]
      parseSatoshis_menu [of Map.empty] n
    by simp
qed

section \<open>Properties of checkProxyBalance\<close>

lemma sumOver_update:
  "i < length rs \<Longrightarrow>
   sumOver col acct (rs[i := r]) =
     sumOver col acct rs
       - (if account_id (rs ! i) = acct then col (rs ! i) else 0)
       + (if account_id r = acct then col r else 0)"
proof (induction rs arbitrary: i)
  case Nil
  then show ?case by simp
next
  case (Cons x xs)
  show ?case
  proof (cases i)
    case 0
    then show ?thesis by (simp add: sumOver_def)
  next
    case (Suc j)
    with Cons.prems have "j < length xs" by simp
    from Cons.IH [OF this] Suc show ?thesis by (simp add: sumOver_def)
  qed
qed

lemma sumOver_other:
  "account_id r \<noteq> acct \<Longrightarrow> sumOver col acct (r # rs) = sumOver col acct rs"
  by (simp add: sumOver_def)

text \<open>
  Claim C6. When the query succeeds, its value is the sum of \<open>amount\<close> minus the sum of
  \<open>fees\<close> over exactly those rows whose \<open>account_id\<close> is the clearing account, and
  \<open>checkProxyBalance\<close> returns \<^verbatim>\<open>nil\<close> exactly when that value is zero, and the error
  "proxy balance isn't 0" otherwise; an error of the query is returned as it is, and the
  query succeeds whenever the connection does and the value has at most 13 digits. The
  rows (100, 40) and (-60, 0) of the account pass, also with a row of another account
  among them, and a row of another account never changes the result. Whenever the check
  passes, adding or subtracting 1 to the amount or to the fees of any one row of the
  account makes it fail.
\<close>

theorem checkProxyBalance_zero_sum:
  "(\<forall>bal. proxyBalanceQuery t acct = Inr bal \<longrightarrow>
      bal = sum_list (map amount (filter (\<lambda>r. account_id r = acct) (rows t)))
            - sum_list (map fees (filter (\<lambda>r. account_id r = acct) (rows t))) \<and>
      (checkProxyBalance t acct = None \<longleftrightarrow>
         sum_list (map amount (filter (\<lambda>r. account_id r = acct) (rows t)))
         - sum_list (map fees (filter (\<lambda>r. account_id r = acct) (rows t))) = 0) \<and>
      (bal \<noteq> 0 \<longrightarrow>
         checkProxyBalance t acct = Some (ErrorsNew (''proxy balance isn'' @ CHR 0x27 # ''t 0'')))) \<and>
   (\<forall>e. proxyBalanceQuery t acct = Inl e \<longrightarrow> checkProxyBalance t acct = Some e) \<and>
   (failure t = None \<and>
    \<bar>sum_list (map amount (filter (\<lambda>r. account_id r = acct) (rows t)))
     - sum_list (map fees (filter (\<lambda>r. account_id r = acct) (rows t)))\<bar> < 10 ^ 13 \<longrightarrow>
      proxyBalanceQuery t acct =
        Inr (sum_list (map amount (filter (\<lambda>r. account_id r = acct) (rows t)))
             - sum_list (map fees (filter (\<lambda>r. account_id r = acct) (rows t))))) \<and>
   checkProxyBalance
     \<lparr>rows = [\<lparr>account_id = acct, amount = 100, fees = 40\<rparr>,
              \<lparr>account_id = acct, amount = - 60, fees = 0\<rparr>], failure = None\<rparr> acct = None \<and>
   (other \<noteq> acct \<longrightarrow>
      checkProxyBalance
        \<lparr>rows = [\<lparr>account_id = acct, amount = 100, fees = 40\<rparr>,
                 \<lparr>account_id = other, amount = 7, fees = 3\<rparr>,
                 \<lparr>account_id = acct, amount = - 60, fees = 0\<rparr>], failure = None\<rparr> acct = None) \<and>
   (\<forall>r. account_id r \<noteq> acct \<longrightarrow>
      checkProxyBalance (t\<lparr>rows := r # rows t\<rparr>) acct = checkProxyBalance t acct) \<and>
   (checkProxyBalance t acct = None \<longrightarrow>
      (\<forall>i d. i < length (rows t) \<and> account_id (rows t ! i) = acct \<and> (d = 1 \<or> d = - 1) \<longrightarrow>
         checkProxyBalance
           (t\<lparr>rows := (rows t)[i := (rows t ! i)\<lparr>amount := amount (rows t ! i) + d\<rparr>]\<rparr>) acct
           = Some (ErrorsNew (''proxy balance isn'' @ CHR 0x27 # ''t 0'')) \<and>
         checkProxyBalance
           (t\<lparr>rows := (rows t)[i := (rows t ! i)\<lparr>fees := fees (rows t ! i) + d\<rparr>]\<rparr>) acct
           = Some (ErrorsNew (''proxy balance isn'' @ CHR 0x27 # ''t 0''))))"
proof -
  let ?A = "sum_list (map amount (filter (\<lambda>r. account_id r = acct) (rows t)))"
  let ?F = "sum_list (map fees (filter (\<lambda>r. account_id r = acct) (rows t)))"
  have sa: "sumOver amount acct (rows t) = ?A" and sf: "sumOver fees acct (rows t) = ?F"
    by (simp_all add: sumOver_def)
  have q: "bal = ?A - ?F \<and> (checkProxyBalance t acct = None \<longleftrightarrow> ?A - ?F = 0) \<and>
      (bal \<noteq> 0 \<longrightarrow>
         checkProxyBalance t acct = Some (ErrorsNew (''proxy balance isn'' @ CHR 0x27 # ''t 0'')))"
    if "proxyBalanceQuery t acct = Inr bal" for bal
    using that
    by (auto simp: checkProxyBalance_def proxyBalanceQuery_def Let_def sa sf
        split: option.splits if_splits)
  have e: "checkProxyBalance t acct = Some e" if "proxyBalanceQuery t acct = Inl e" for e
    using that by (simp add: checkProxyBalance_def)
  have g: "proxyBalanceQuery t acct = Inr (?A - ?F)"
    if "failure t = None" "\<bar>?A - ?F\<bar> < 10 ^ 13"
    using that by (simp add: proxyBalanceQuery_def Let_def sa sf)
  have x: "checkProxyBalance
     \<lparr>rows = [\<lparr>account_id = acct, amount = 100, fees = 40\<rparr>,
              \<lparr>account_id = acct, amount = - 60, fees = 0\<rparr>], failure = None\<rparr> acct = None"
    by (simp add: checkProxyBalance_def proxyBalanceQuery_def sumOver_def)
  have y: "checkProxyBalance
        \<lparr>rows = [\<lparr>account_id = acct, amount = 100, fees = 40\<rparr>,
                 \<lparr>account_id = other, amount = 7, fees = 3\<rparr>,
                 \<lparr>account_id = acct, amount = - 60, fees = 0\<rparr>], failure = None\<rparr> acct = None"
    if "other \<noteq> acct"
    using that by (simp add: checkProxyBalance_def proxyBalanceQuery_def sumOver_def)
  have o: "checkProxyBalance (t\<lparr>rows := r # rows t\<rparr>) acct = checkProxyBalance t acct"
    if "account_id r \<noteq> acct" for r
    using that
    by (simp add: checkProxyBalance_def proxyBalanceQuery_def sumOver_other Let_def
        split: option.splits)
  have p: "checkProxyBalance
           (t\<lparr>rows := (rows t)[i := (rows t ! i)\<lparr>amount := amount (rows t ! i) + d\<rparr>]\<rparr>) acct
           = Some (ErrorsNew (''proxy balance isn'' @ CHR 0x27 # ''t 0'')) \<and>
         checkProxyBalance
           (t\<lparr>rows := (rows t)[i := (rows t ! i)\<lparr>fees := fees (rows t ! i) + d\<rparr>]\<rparr>) acct
           = Some (ErrorsNew (''proxy balance isn'' @ CHR 0x27 # ''t 0''))"
    if ok: "checkProxyBalance t acct = None" and i: "i < length (rows t)"
      and a: "account_id (rows t ! i) = acct" and d: "d = 1 \<or> d = - 1" for i d
  proof -
    from ok have f: "failure t = None"
      and z: "sumOver amount acct (rows t) - sumOver fees acct (rows t) = 0"
      by (auto simp: checkProxyBalance_def proxyBalanceQuery_def Let_def
          split: option.splits if_splits)
    from z have z': "sumOver amount acct (rows t) = sumOver fees acct (rows t)" by simp
    let ?ra = "(rows t)[i := (rows t ! i)\<lparr>amount := amount (rows t ! i) + d\<rparr>]"
    let ?rf = "(rows t)[i := (rows t ! i)\<lparr>fees := fees (rows t ! i) + d\<rparr>]"
    have ba: "sumOver amount acct ?ra - sumOver fees acct ?ra = d"
      by (simp add: sumOver_update [OF i] a z')
    have bf: "sumOver amount acct ?rf - sumOver fees acct ?rf = - d"
      by (simp add: sumOver_update [OF i] a z')
    from d have "d \<noteq> 0" "\<bar>d\<bar> < 10 ^ 13" by auto
    then show ?thesis
      by (simp add: checkProxyBalance_def proxyBalanceQuery_def Let_def f ba bf)
  qed
  from q e g x y o p show ?thesis by blast
qed

theorem checkProxyBalance_zero_sum_witness:
  "checkProxyBalance
     \<lparr>rows = [\<lparr>account_id = 7, amount = 100, fees = 40\<rparr>,
              \<lparr>account_id = 8, amount = 7, fees = 3\<rparr>,
              \<lparr>account_id = 7, amount = - 60, fees = 0\<rparr>], failure = None\<rparr> 7 = None \<and>
   checkProxyBalance
     \<lparr>rows = [\<lparr>account_id = 7, amount = 100, fees = 40\<rparr>,
              \<lparr>account_id = 8, amount = 7, fees = 3\<rparr>,
              \<lparr>account_id = 7, amount = - 59, fees = 0\<rparr>], failure = None\<rparr> 7
     = Some (ErrorsNew (''proxy balance isn'' @ CHR 0x27 # ''t 0'')) \<and>
   checkProxyBalance
     \<lparr>rows = [\<lparr>account_id = 7, amount = 100, fees = 39\<rparr>,
              \<lparr>account_id = 8, amount = 7, fees = 3\<rparr>,
              \<lparr>account_id = 7, amount = - 60, fees = 0\<rparr>], failure = None\<rparr> 7
     = Some (ErrorsNew (''proxy balance isn'' @ CHR 0x27 # ''t 0'')) \<and>
   proxyBalanceQuery
     \<lparr>rows = [\<lparr>account_id = 7, amount = 100, fees = 40\<rparr>,
              \<lparr>account_id = 8, amount = 7, fees = 3\<rparr>,
              \<lparr>account_id = 7, amount = - 60, fees = 0\<rparr>], failure = None\<rparr> 8 = Inr 4"
proof -
  let ?t = "\<lparr>rows = [\<lparr>account_id = 7, amount = 100, fees = 40\<rparr>,
               \<lparr>account_id = 8, amount = 7, fees = 3\<rparr>,
               \<lparr>account_id = 7, amount = - 60, fees = 0\<rparr>], failure = None\<rparr>"
  note th = checkProxyBalance_zero_sum [of ?t 7 8]
  note other = th [THEN conjunct2, THEN conjunct2, THEN conjunct2, THEN conjunct2, THEN conjunct1]
  note perturb = th [THEN conjunct2, THEN conjunct2, THEN conjunct2, THEN conjunct2,
      THEN conjunct2, THEN conjunct2]
  note query = checkProxyBalance_zero_sum [of ?t 8 7, THEN conjunct2, THEN conjunct2,
      THEN conjunct1]
  from other have ok: "checkProxyBalance ?t 7 = None" by simp
  from perturb [rule_format, OF ok, of 2 1]
  have a: "checkProxyBalance
     \<lparr>rows = [\<lparr>account_id = 7, amount = 100, fees = 40\<rparr>,
              \<lparr>account_id = 8, amount = 7, fees = 3\<rparr>,
              \<lparr>account_id = 7, amount = - 59, fees = 0\<rparr>], failure = None\<rparr> 7
     = Some (ErrorsNew (''proxy balance isn'' @ CHR 0x27 # ''t 0''))"
    by simp
  from perturb [rule_format, OF ok, of 0 "- 1"]
  have f: "checkProxyBalance
     \<lparr>rows = [\<lparr>account_id = 7, amount = 100, fees = 39\<rparr>,
              \<lparr>account_id = 8, amount = 7, fees = 3\<rparr>,
              \<lparr>account_id = 7, amount = - 60, fees = 0\<rparr>], failure = None\<rparr> 7
     = Some (ErrorsNew (''proxy balance isn'' @ CHR 0x27 # ''t 0''))"
    by simp
  from query have g: "proxyBalanceQuery ?t 8 = Inr 4" by simp
  from ok a f g show ?thesis by (intro conjI)
qed

section \<open>Properties of the settlement flow\<close>

lemma hexdigit_lower: "hexdigit n \<in> set ''0123456789abcdef''"
proof -
  have "n mod 16 < length ''0123456789abcdef''" by simp
  then show ?thesis unfolding hexdigit_def by (rule nth_mem)
qed

lemma hexEncode_lowercase: "set (hexEncode bs) \<subseteq> set ''0123456789abcdef''"
proof -
  have "set (hexEncode bs) = (\<Union>b\<in>set bs. {hexdigit (unat b div 16), hexdigit (unat b mod 16)})"
    by (simp add: hexEncode_def)
  also have "\<dots> \<subseteq> set ''0123456789abcdef''"
    using hexdigit_lower by blast
  finally show ?thesis .
qed

lemma hexEncode_length: "length (hexEncode bs) = 2 * length bs"
  by (induction bs) (simp_all add: hexEncode_def)

text \<open>
  Claim C1. When the pay callback answers below 300 without the status ERROR, its invoice
  decodes, and the description hash of the invoice differs from the lowercase hexadecimal
  SHA-256 of the metadata string or its amount differs from the requested one, then
  \<open>lnurlpayFetchInvoiceAndPay\<close> does the request to the callback, sends one error
  notification naming the mismatch (the hash is tested first) and returns: \<open>payInvoice\<close>
  is not called. The hash compared is made of lowercase hexadecimal digits.
\<close>

theorem mismatched_invoice_rejected:
  assumes got: "napping_Get E callback [(''amount'', showInt (sint msats))] = Inr (status, res)"
    and ok: "status < 300" "Status res \<noteq> ''ERROR''"
    and dec: "Decodepay E (PR res) = Inr invoice"
    and bad: "DescriptionHash invoice \<noteq> hexEncode (Sum256 E (bytesOf metadata))
              \<or> MSatoshi invoice \<noteq> msats"
  shows "lnurlpayFetchInvoiceAndPay E u msats callback metadata encodedLnurl msgId =
           ([NappingGet callback [(''amount'', showInt (sint msats))],
             Notify ERROR [(''Err'', Str
               (if DescriptionHash invoice \<noteq> calculateHash (Sum256 E) metadata
                then ''Got invoice with wrong description_hash''
                else ''Got invoice with wrong amount.''))]],
            Some (if DescriptionHash invoice \<noteq> calculateHash (Sum256 E) metadata
                  then WrongDescriptionHash else WrongAmount))
         \<and> \<not> list_ex isPayInvoice
               (fst (lnurlpayFetchInvoiceAndPay E u msats callback metadata encodedLnurl msgId))
         \<and> set (calculateHash (Sum256 E) metadata) \<subseteq> set ''0123456789abcdef''"
proof -
  from bad have bad': "DescriptionHash invoice \<noteq> calculateHash (Sum256 E) metadata
              \<or> MSatoshi invoice \<noteq> msats"
    by (simp add: calculateHash_def)
  have run: "lnurlpayFetchInvoiceAndPay E u msats callback metadata encodedLnurl msgId =
           ([NappingGet callback [(''amount'', showInt (sint msats))],
             Notify ERROR [(''Err'', Str
               (if DescriptionHash invoice \<noteq> calculateHash (Sum256 E) metadata
                then ''Got invoice with wrong description_hash''
                else ''Got invoice with wrong amount.''))]],
            Some (if DescriptionHash invoice \<noteq> calculateHash (Sum256 E) metadata
                  then WrongDescriptionHash else WrongAmount))"
    using got ok dec bad' by (simp add: lnurlpayFetchInvoiceAndPay_def Let_def)
  have "\<not> list_ex isPayInvoice
               (fst (lnurlpayFetchInvoiceAndPay E u msats callback metadata encodedLnurl msgId))"
    by (subst run) simp
  with run show ?thesis
    using hexEncode_lowercase by (simp only: calculateHash_def) blast
qed

theorem mismatched_invoice_rejected_witness:
  "lnurlpayFetchInvoiceAndPay sampleEnv sampleUser 2000 ''https://example.com/cb'' ''[]''
       ''lnurl1'' 3 =
     ([NappingGet ''https://example.com/cb'' [(''amount'', ''2000'')],
       Notify ERROR [(''Err'', Str ''Got invoice with wrong description_hash'')]],
      Some WrongDescriptionHash)"
proof -
  have s: "showInt (sint (2000 :: int64)) = ''2000''"
    by (simp add: showInt_def hexdigit_def)
  have h: "hexEncode (Sum256 sampleEnv (bytesOf ''[]'')) \<noteq> []"
    using hexEncode_length [of "Sum256 sampleEnv (bytesOf ''[]'')"]
    by (auto simp: sampleEnv_def bytesOf_def)
  have "napping_Get sampleEnv ''https://example.com/cb'' [(''amount'', showInt (sint (2000 :: int64)))]
      = Inr (200, \<lparr>Status = ''OK'', Reason = [], PR = ''lnbc1'', SuccessAction = None\<rparr>)"
    by (simp add: sampleEnv_def)
  from mismatched_invoice_rejected [OF this, where metadata = "''[]''" and u = sampleUser
      and encodedLnurl = "''lnurl1''" and msgId = 3
      and invoice = "\<lparr>MSatoshi = 1000, DescriptionHash = [], PaymentHash = ''0011223344''\<rparr>"]
  show ?thesis using h s by (simp add: sampleEnv_def calculateHash_def)
qed

section \<open>Properties of the pay negotiation\<close>

lemma settle_first:
  "\<exists>rest. fst (lnurlpayFetchInvoiceAndPay E u msats callback metadata encodedLnurl msgId) =
     NappingGet callback [(''amount'', showInt (sint msats))] # rest"
  by (simp add: lnurlpayFetchInvoiceAndPay_def Let_def split: sum.splits prod.splits)

lemma prompt_no_get:
  "\<not> list_ex isNappingGet (fst (lnurlPayPrompt E u params lnurltext opts fixedAmount))"
  by (simp add: lnurlPayPrompt_def Let_def split: sum.splits option.splits)

lemma prompt_first:
  "\<exists>c rest. fst (lnurlPayPrompt E u params lnurltext opts fixedAmount) = TgSend c # rest"
  by (simp add: lnurlPayPrompt_def Let_def split: sum.splits option.splits)

lemma settle_no_tgsend:
  "\<not> list_ex isTgSend
     (fst (lnurlpayFetchInvoiceAndPay E u msats callback metadata encodedLnurl msgId))"
  by (simp add: lnurlpayFetchInvoiceAndPay_def Let_def split: sum.splits prod.splits)


lemma lnurlPay_fast:
  assumes "MaxSendable params = MinSendable params" "0 < sint (MaxSendable params)"
    "payWithoutPromptIf opts = Some threshold" "sint (MaxSendable params) < sint (threshold + 3000)"
  shows "lnurlPay E u params lnurltext opts =
     (Track ''lnurl-pay''
        [(''domain'', Str (pay_CallbackURL_Host params)),
         (''fixed'', Thousandth (MaxSendable params)),
         (''max'', Thousandth (MaxSendable params)),
         (''min'', Thousandth (MinSendable params))]
      # fst (lnurlpayFetchInvoiceAndPay E u (MaxSendable params) (pay_Callback params)
             (EncodedMetadata params) lnurltext (messageId opts)),
      snd (lnurlpayFetchInvoiceAndPay E u (MaxSendable params) (pay_Callback params)
             (EncodedMetadata params) lnurltext (messageId opts)))"
  using assms by (simp add: lnurlPay_def Let_def split: prod.splits)

lemma lnurlPay_slow:
  assumes "\<not> (MaxSendable params = MinSendable params \<and> 0 < sint (MaxSendable params) \<and>
    (\<exists>threshold. payWithoutPromptIf opts = Some threshold \<and>
       sint (MaxSendable params) < sint (threshold + 3000)))"
  shows "\<exists>track. lnurlPay E u params lnurltext opts =
     (track # fst (lnurlPayPrompt E u params lnurltext opts
          (if MaxSendable params = MinSendable params then MaxSendable params else 0)),
      snd (lnurlPayPrompt E u params lnurltext opts
          (if MaxSendable params = MinSendable params then MaxSendable params else 0)))
     \<and> \<not> isNappingGet track \<and> \<not> isTgSend track \<and> \<not> isNotification track"
  using assms by (auto simp: lnurlPay_def Let_def split: prod.splits option.splits)

text \<open>
  Claim C4, amended. The pay case of \<open>handleLNURL\<close> calls the settlement flow without a
  prompt (the request to the callback is made) exactly when \<open>MaxSendable = MinSendable\<close>,
  that amount is positive, a threshold is set, and the amount is below the threshold plus
  3000 in 64-bit wrap-around arithmetic; in every other case the prompt is sent instead.
  On the fast path the settlement flow runs with the fixed amount. It is never taken when
  \<open>MaxSendable\<close> and \<open>MinSendable\<close> differ.
\<close>

theorem fast_path_iff:
  "(list_ex isNappingGet (fst (lnurlPay E u params lnurltext opts)) \<longleftrightarrow>
      MaxSendable params = MinSendable params \<and> 0 < sint (MaxSendable params) \<and>
      (\<exists>threshold. payWithoutPromptIf opts = Some threshold \<and>
         sint (MaxSendable params) < sint (threshold + 3000))) \<and>
   (list_ex isTgSend (fst (lnurlPay E u params lnurltext opts)) \<longleftrightarrow>
      \<not> list_ex isNappingGet (fst (lnurlPay E u params lnurltext opts))) \<and>
   (list_ex isNappingGet (fst (lnurlPay E u params lnurltext opts)) \<longrightarrow>
      tl (fst (lnurlPay E u params lnurltext opts)) =
        fst (lnurlpayFetchInvoiceAndPay E u (MaxSendable params) (pay_Callback params)
               (EncodedMetadata params) lnurltext (messageId opts))) \<and>
   (MaxSendable params \<noteq> MinSendable params \<longrightarrow>
      \<not> list_ex isNappingGet (fst (lnurlPay E u params lnurltext opts)))"
proof (cases "MaxSendable params = MinSendable params \<and> 0 < sint (MaxSendable params) \<and>
      (\<exists>threshold. payWithoutPromptIf opts = Some threshold \<and>
         sint (MaxSendable params) < sint (threshold + 3000))")
  case True
  then obtain threshold where t: "payWithoutPromptIf opts = Some threshold"
      "sint (MaxSendable params) < sint (threshold + 3000)" by blast
  from True have m: "MaxSendable params = MinSendable params" "0 < sint (MaxSendable params)"
    by blast+
  note run = lnurlPay_fast [OF m t, of E u lnurltext]
  obtain rest where r: "fst (lnurlpayFetchInvoiceAndPay E u (MaxSendable params)
      (pay_Callback params) (EncodedMetadata params) lnurltext (messageId opts)) =
      NappingGet (pay_Callback params) [(''amount'', showInt (sint (MaxSendable params)))] # rest"
    using settle_first by blast
  have g: "list_ex isNappingGet (fst (lnurlPay E u params lnurltext opts))"
    by (simp add: run r)
  have n: "\<not> list_ex isTgSend (fst (lnurlPay E u params lnurltext opts))"
    using settle_no_tgsend [of E u "MaxSendable params" "pay_Callback params"
        "EncodedMetadata params" lnurltext "messageId opts"]
    by (simp add: run)
  have t: "tl (fst (lnurlPay E u params lnurltext opts)) =
        fst (lnurlpayFetchInvoiceAndPay E u (MaxSendable params) (pay_Callback params)
               (EncodedMetadata params) lnurltext (messageId opts))"
    by (simp add: run)
  from True g n t show ?thesis by blast
next
  case False
  from lnurlPay_slow [OF False, of E u lnurltext] obtain track where
    run: "lnurlPay E u params lnurltext opts =
     (track # fst (lnurlPayPrompt E u params lnurltext opts
          (if MaxSendable params = MinSendable params then MaxSendable params else 0)),
      snd (lnurlPayPrompt E u params lnurltext opts
          (if MaxSendable params = MinSendable params then MaxSendable params else 0)))"
    and tr: "\<not> isNappingGet track" by blast
  obtain c rest where p: "fst (lnurlPayPrompt E u params lnurltext opts
          (if MaxSendable params = MinSendable params then MaxSendable params else 0)) =
      TgSend c # rest"
    using prompt_first by blast
  have g: "\<not> list_ex isNappingGet (fst (lnurlPay E u params lnurltext opts))"
    using prompt_no_get [of E u params lnurltext opts
        "if MaxSendable params = MinSendable params then MaxSendable params else 0"] tr
    by (simp add: run)
  have n: "list_ex isTgSend (fst (lnurlPay E u params lnurltext opts))"
    by (simp add: run p)
  from False g n show ?thesis by blast
qed


text \<open>
  The claim as written fails for an offer fixed at 0 millisatoshi with the threshold 0:
  \<open>MaxSendable = MinSendable\<close> and \<open>0 < 0 + 3000\<close>, yet the prompt is sent, since a fixed
  amount of 0 is how the code writes "no fixed amount".
\<close>

theorem fast_path_iff_counterexample:
  "MaxSendable (samplePay 0 0) = MinSendable (samplePay 0 0) \<and>
   payWithoutPromptIf sampleOpts = Some 0 \<and>
   sint (MaxSendable (samplePay 0 0)) < sint ((0 :: int64) + 3000) \<and>
   \<not> list_ex isNappingGet (fst (lnurlPay sampleEnv sampleUser (samplePay 0 0) ''lnurl1'' sampleOpts)) \<and>
   list_ex isTgSend (fst (lnurlPay sampleEnv sampleUser (samplePay 0 0) ''lnurl1'' sampleOpts))"
  by (simp add: lnurlPay_def lnurlPayPrompt_def samplePay_def sampleOpts_def sampleEnv_def Let_def)

theorem fast_path_iff_witness:
  "list_ex isNappingGet
     (fst (lnurlPay sampleEnv sampleUser (samplePay 1000 1000) ''lnurl1'' sampleOpts)) \<and>
   \<not> list_ex isNappingGet
     (fst (lnurlPay sampleEnv sampleUser (samplePay 1000 2000) ''lnurl1'' sampleOpts))"
  using fast_path_iff [of sampleEnv sampleUser "samplePay 1000 1000" "''lnurl1''" sampleOpts]
    fast_path_iff [of sampleEnv sampleUser "samplePay 1000 2000" "''lnurl1''" sampleOpts]
  by (simp add: samplePay_def sampleOpts_def)

section \<open>Properties of the auth flow\<close>

lemma auth_get_key:
  "NappingGet url q \<in> set (fst (lnurlAuth E u params opts)) \<Longrightarrow>
     url = auth_Callback params \<and>
     map_of q ''key'' =
       Some (hexEncode (SerializeCompressed E (snd (authKey E (auth_Host params) (Id u)))))"
  by (auto simp: lnurlAuth_def Let_def split: prod.splits option.splits sum.splits if_splits)

lemma keySeed_host: "keySeed host uid token = keySeed host' uid token \<Longrightarrow> host = host'"
  by (simp add: keySeed_def)

text \<open>
  Claim C2, amended. The key pair of the auth flow is a function of the host of the LNURL
  server, the user id and the bot secret (through the two library functions): two runs
  that agree on these derive the same private and public key, and every request either
  run sends to its callback carries that public key, serialised and hex-encoded, as
  \<open>key\<close>, whatever the challenge, the callback, the options, the other fields of the
  user and the answers of the collaborators are.
\<close>

theorem auth_key_of_host_user_secret:
  assumes "auth_Host params' = auth_Host params" and "Id u' = Id u"
    and "BotToken E' = BotToken E" and "Sum256 E' = Sum256 E"
    and "PrivKeyFromBytes E' = PrivKeyFromBytes E"
    and "SerializeCompressed E' = SerializeCompressed E"
  shows "authKey E' (auth_Host params') (Id u') = authKey E (auth_Host params) (Id u) \<and>
    (\<forall>url q. NappingGet url q \<in> set (fst (lnurlAuth E u params opts)) \<longrightarrow>
       map_of q ''key'' =
         Some (hexEncode (SerializeCompressed E (snd (authKey E (auth_Host params) (Id u)))))) \<and>
    (\<forall>url q. NappingGet url q \<in> set (fst (lnurlAuth E' u' params' opts')) \<longrightarrow>
       map_of q ''key'' =
         Some (hexEncode (SerializeCompressed E (snd (authKey E (auth_Host params) (Id u))))))"
proof -
  have k: "authKey E' (auth_Host params') (Id u') = authKey E (auth_Host params) (Id u)"
    using assms by (simp add: authKey_def)
  have a: "map_of q ''key'' =
         Some (hexEncode (SerializeCompressed E (snd (authKey E (auth_Host params) (Id u)))))"
    if "NappingGet url q \<in> set (fst (lnurlAuth E u params opts))" for url q
    using auth_get_key [OF that] by simp
  have b: "map_of q ''key'' =
         Some (hexEncode (SerializeCompressed E (snd (authKey E (auth_Host params) (Id u)))))"
    if "NappingGet url q \<in> set (fst (lnurlAuth E' u' params' opts'))" for url q
    using auth_get_key [OF that] k assms(6) by simp
  from k a b show ?thesis by blast
qed

theorem auth_key_of_host_user_secret_witness:
  "authKey (sampleEnv\<lparr>napping_Get := \<lambda>url q. Inl (Error ''timeout'')\<rparr>)
     (auth_Host ((sampleAuth ''a.com'')\<lparr>auth_K1 := ''0a''\<rparr>)) (Id (sampleUser\<lparr>ChatId := 9\<rparr>))
   = authKey sampleEnv (auth_Host (sampleAuth ''a.com'')) (Id sampleUser)"
proof -
  have "auth_Host ((sampleAuth ''a.com'')\<lparr>auth_K1 := ''0a''\<rparr>) = auth_Host (sampleAuth ''a.com'')"
    and "Id (sampleUser\<lparr>ChatId := 9\<rparr>) = Id sampleUser"
    and "BotToken (sampleEnv\<lparr>napping_Get := \<lambda>url q. Inl (Error ''timeout'')\<rparr>) = BotToken sampleEnv"
    and "Sum256 (sampleEnv\<lparr>napping_Get := \<lambda>url q. Inl (Error ''timeout'')\<rparr>) = Sum256 sampleEnv"
    and "PrivKeyFromBytes (sampleEnv\<lparr>napping_Get := \<lambda>url q. Inl (Error ''timeout'')\<rparr>)
         = PrivKeyFromBytes sampleEnv"
    and "SerializeCompressed (sampleEnv\<lparr>napping_Get := \<lambda>url q. Inl (Error ''timeout'')\<rparr>)
         = SerializeCompressed sampleEnv"
    by simp_all
  from auth_key_of_host_user_secret [OF this] show ?thesis by blast
qed

text \<open>
  The claim as written fails: with one user id and one secret, and with the sample digest
  and key derivation, the servers \<open>a.com\<close> and \<open>b.com\<close> are given different private
  keys and different public keys, since the host is part of the seed (\<open>keySeed_host\<close>).
\<close>

theorem auth_key_depends_on_host_counterexample:
  "fst (authKey sampleEnv ''a.com'' 1) \<noteq> fst (authKey sampleEnv ''b.com'' 1) \<and>
   snd (authKey sampleEnv ''a.com'' 1) \<noteq> snd (authKey sampleEnv ''b.com'' 1)"
proof -
  have a: "authKey sampleEnv ''a.com'' 1 = (174242669762111271516584454336649200932761315220284006577431918, (174242669762111271516584454336649200932761315220284006577431918, 0))"
    by (simp add: authKey_def keySeed_def showInt_def hexdigit_def sampleEnv_def bytesOf_def
        bytesToNat_def)
  have b: "authKey sampleEnv ''b.com'' 1 = (174242669762111271516584454336649280160923829484621600121382254, (174242669762111271516584454336649280160923829484621600121382254, 0))"
    by (simp add: authKey_def keySeed_def showInt_def hexdigit_def sampleEnv_def bytesOf_def
        bytesToNat_def)
  show ?thesis by (simp add: a b)
qed

lemma lnurlAuth_silent:
  "lnurlAuth E u params (opts\<lparr>loginSilently := True\<rparr>) =
     (filter (\<lambda>e. \<not> isAuthSuccessReport e) (fst (lnurlAuth E u params (opts\<lparr>loginSilently := False\<rparr>))),
      snd (lnurlAuth E u params (opts\<lparr>loginSilently := False\<rparr>)))"
  by (simp add: lnurlAuth_def Let_def split: prod.splits option.splits sum.splits)

lemma lnurlAuth_silent_error:
  "snd (lnurlAuth E u params (opts\<lparr>loginSilently := False\<rparr>)) \<noteq> None \<Longrightarrow>
   fst (lnurlAuth E u params (opts\<lparr>loginSilently := True\<rparr>)) =
   fst (lnurlAuth E u params (opts\<lparr>loginSilently := False\<rparr>))"
  by (auto simp: lnurlAuth_def Let_def split: prod.splits option.splits sum.splits if_splits)

lemma lnurlAuth_silent_success:
  "snd (lnurlAuth E u params (opts\<lparr>loginSilently := False\<rparr>)) = None \<Longrightarrow>
   \<exists>pubkey. fst (lnurlAuth E u params (opts\<lparr>loginSilently := False\<rparr>)) =
     fst (lnurlAuth E u params (opts\<lparr>loginSilently := True\<rparr>)) @
       [Notify LNURLAUTHSUCCESS [(''Host'', Str (auth_Host params)), (''PublicKey'', Str pubkey)],
        Track ''lnurl-auth'' [(''domain'', Str (auth_Host params))]]"
  by (auto simp: lnurlAuth_def Let_def split: prod.splits option.splits sum.splits if_splits)

text \<open>
  Claim C8. For an lnurl-auth link, the run with \<open>loginSilently\<close> set is the run without
  it with the success notification and the tracking event taken out: the requests sent
  to the callback (signature and key) are the same, the run ends in the same way, a run
  that ends on an error sends the very same calls, and a run that succeeds differs by
  exactly the notification and the tracking event at its end.
\<close>

theorem loginSilently_mutes_success_only:
  assumes "HandleLNURL E lnurltext = Inr (AuthParams params)"
  shows "snd (handleLNURL E u lnurltext (opts\<lparr>loginSilently := True\<rparr>)) =
         snd (handleLNURL E u lnurltext (opts\<lparr>loginSilently := False\<rparr>)) \<and>
    fst (handleLNURL E u lnurltext (opts\<lparr>loginSilently := True\<rparr>)) =
      filter (\<lambda>e. \<not> isAuthSuccessReport e)
        (fst (handleLNURL E u lnurltext (opts\<lparr>loginSilently := False\<rparr>))) \<and>
    filter isNappingGet (fst (handleLNURL E u lnurltext (opts\<lparr>loginSilently := True\<rparr>))) =
      filter isNappingGet (fst (handleLNURL E u lnurltext (opts\<lparr>loginSilently := False\<rparr>))) \<and>
    (snd (handleLNURL E u lnurltext (opts\<lparr>loginSilently := False\<rparr>)) \<noteq> None \<longrightarrow>
       fst (handleLNURL E u lnurltext (opts\<lparr>loginSilently := True\<rparr>)) =
       fst (handleLNURL E u lnurltext (opts\<lparr>loginSilently := False\<rparr>))) \<and>
    (snd (handleLNURL E u lnurltext (opts\<lparr>loginSilently := False\<rparr>)) = None \<longrightarrow>
       (\<exists>pubkey. fst (handleLNURL E u lnurltext (opts\<lparr>loginSilently := False\<rparr>)) =
          fst (handleLNURL E u lnurltext (opts\<lparr>loginSilently := True\<rparr>)) @
            [Notify LNURLAUTHSUCCESS
               [(''Host'', Str (auth_Host params)), (''PublicKey'', Str pubkey)],
             Track ''lnurl-auth'' [(''domain'', Str (auth_Host params))]]))"
proof -
  have h: "handleLNURL E u lnurltext o' = lnurlAuth E u params o'" for o'
    using assms by (simp add: handleLNURL_def)
  have f: "filter (\<lambda>e. \<not> isAuthSuccessReport e \<and> isNappingGet e) tr = filter isNappingGet tr"
    for tr
  proof (induction tr)
    case Nil
    then show ?case by simp
  next
    case (Cons e tr)
    then show ?case by (cases e) simp_all
  qed
  show ?thesis
    unfolding h
    using lnurlAuth_silent [of E u params opts] lnurlAuth_silent_error [of E u params opts]
      lnurlAuth_silent_success [of E u params opts]
    by (simp add: f)
qed

theorem loginSilently_mutes_success_only_witness:
  "fst (handleLNURL (sampleEnv\<lparr>HandleLNURL := \<lambda>t. Inr (AuthParams (sampleAuth ''a.com''))\<rparr>)
          sampleUser ''lnurl1'' (sampleOpts\<lparr>loginSilently := True\<rparr>)) =
   filter (\<lambda>e. \<not> isAuthSuccessReport e)
     (fst (handleLNURL (sampleEnv\<lparr>HandleLNURL := \<lambda>t. Inr (AuthParams (sampleAuth ''a.com''))\<rparr>)
          sampleUser ''lnurl1'' (sampleOpts\<lparr>loginSilently := False\<rparr>)))"
proof -
  have "HandleLNURL (sampleEnv\<lparr>HandleLNURL := \<lambda>t. Inr (AuthParams (sampleAuth ''a.com''))\<rparr>)
      ''lnurl1'' = Inr (AuthParams (sampleAuth ''a.com''))"
    by simp
  from loginSilently_mutes_success_only [OF this, of sampleUser sampleOpts]
  show ?thesis by blast
qed

section \<open>Properties of the task that follows the confirmation\<close>

lemma confirmationTask_faults:
  "url_Parse_Host E callback = None \<or> length (PaymentHash invoice) < 5 \<Longrightarrow>
   fst (confirmationTask E u callback metadata encodedLnurl msgId res invoice preimage) = [] \<and>
   snd (confirmationTask E u callback metadata encodedLnurl msgId res invoice preimage) \<noteq> None"
  by (auto simp: confirmationTask_def Let_def split: option.splits)

lemma confirmationTask_runs:
  assumes "url_Parse_Host E callback = Some host" and "5 \<le> length (PaymentHash invoice)"
  shows "confirmationTask E u callback metadata encodedLnurl msgId res invoice preimage =
    (BotSend (DocumentConfig (ChatId u) (encodedLnurl @ ''.json'') (bytesOf metadata) ''text/json''
       (translateTemplate E LNURLPAYMETADATA (Locale u)
          [(''Domain'', Str host), (''LNURL'', Str encodedLnurl),
           (''Hash'', Str (PaymentHash invoice)),
           (''HashFirstChars'', Str (take 5 (PaymentHash invoice)))]))
     # (case SuccessAction res of
          None \<Rightarrow> []
        | Some sa \<Rightarrow>
            [Sleep 2,
             NotifyAsReply LNURLPAYSUCCESS
               [(''Domain'', Str host),
                (''Text'', Str (fst (successText E sa (fst (hexDecodeString preimage))))),
                (''URL'', Str (URL sa)),
                (''DecipherError'',
                 ErrorValue (snd (successText E sa (fst (hexDecodeString preimage)))))]
               msgId]),
     None)"
  using assms by (simp add: confirmationTask_def Let_def split: option.splits prod.splits)

text \<open>
  Claim C9. In the task that runs once the preimage has arrived, a success notification
  is never sent unless the document with the raw metadata was sent before it. When the
  invoice carried a success action, the task either faults before it sends anything (the
  callback has no parsed URL, or the payment hash has fewer than 5 characters) or sends
  exactly the document (named after the LNURL, captioned from host, LNURL, hash and its
  first 5 characters), waits, and sends the success notification, whose field
  \<open>DecipherError\<close> is the error of the decryption for an \<open>aes\<close> action: a decryption
  failure changes that field and nothing else.
\<close>

theorem document_before_success:
  "(\<forall>j < length (fst (confirmationTask E u callback metadata encodedLnurl msgId res invoice preimage)).
      isPaySuccess
        (fst (confirmationTask E u callback metadata encodedLnurl msgId res invoice preimage) ! j) \<longrightarrow>
      (\<exists>i < j. isDocument
        (fst (confirmationTask E u callback metadata encodedLnurl msgId res invoice preimage) ! i))) \<and>
   (\<forall>sa. SuccessAction res = Some sa \<longrightarrow>
      (url_Parse_Host E callback = None \<or> length (PaymentHash invoice) < 5 \<longrightarrow>
         fst (confirmationTask E u callback metadata encodedLnurl msgId res invoice preimage) = [] \<and>
         snd (confirmationTask E u callback metadata encodedLnurl msgId res invoice preimage) \<noteq> None) \<and>
      (\<forall>host. url_Parse_Host E callback = Some host \<and> 5 \<le> length (PaymentHash invoice) \<longrightarrow>
         confirmationTask E u callback metadata encodedLnurl msgId res invoice preimage =
           ([BotSend (DocumentConfig (ChatId u) (encodedLnurl @ ''.json'') (bytesOf metadata)
               ''text/json''
               (translateTemplate E LNURLPAYMETADATA (Locale u)
                  [(''Domain'', Str host), (''LNURL'', Str encodedLnurl),
                   (''Hash'', Str (PaymentHash invoice)),
                   (''HashFirstChars'', Str (take 5 (PaymentHash invoice)))])),
             Sleep 2,
             NotifyAsReply LNURLPAYSUCCESS
               [(''Domain'', Str host),
                (''Text'', Str (fst (successText E sa (fst (hexDecodeString preimage))))),
                (''URL'', Str (URL sa)),
                (''DecipherError'',
                 ErrorValue (snd (successText E sa (fst (hexDecodeString preimage)))))]
               msgId],
            None)) \<and>
      (Tag sa = ''aes'' \<longrightarrow>
         successText E sa (fst (hexDecodeString preimage)) =
           Decipher E sa (fst (hexDecodeString preimage))))"
proof -
  let ?run = "confirmationTask E u callback metadata encodedLnurl msgId res invoice preimage"
  have order: "\<exists>i < j. isDocument (fst ?run ! i)"
    if j: "j < length (fst ?run)" and s: "isPaySuccess (fst ?run ! j)" for j
  proof (cases "url_Parse_Host E callback = None \<or> length (PaymentHash invoice) < 5")
    case True
    from confirmationTask_faults [OF True] j show ?thesis by simp
  next
    case False
    then obtain host where h: "url_Parse_Host E callback = Some host"
      and l: "5 \<le> length (PaymentHash invoice)" by auto
    note run = confirmationTask_runs [OF h l, of u metadata encodedLnurl msgId res preimage]
    show ?thesis
    proof (cases "SuccessAction res")
      case None
      with run j s show ?thesis by simp
    next
      case (Some sa)
      with run j s have "j = 2" by (cases j; simp) (rename_tac k, case_tac k; simp)
      moreover from run Some have "isDocument (fst ?run ! 0)" by simp
      ultimately show ?thesis by (intro exI [of _ 0]) simp
    qed
  qed
  have full: "?run =
           ([BotSend (DocumentConfig (ChatId u) (encodedLnurl @ ''.json'') (bytesOf metadata)
               ''text/json''
               (translateTemplate E LNURLPAYMETADATA (Locale u)
                  [(''Domain'', Str host), (''LNURL'', Str encodedLnurl),
                   (''Hash'', Str (PaymentHash invoice)),
                   (''HashFirstChars'', Str (take 5 (PaymentHash invoice)))])),
             Sleep 2,
             NotifyAsReply LNURLPAYSUCCESS
               [(''Domain'', Str host),
                (''Text'', Str (fst (successText E sa (fst (hexDecodeString preimage))))),
                (''URL'', Str (URL sa)),
                (''DecipherError'',
                 ErrorValue (snd (successText E sa (fst (hexDecodeString preimage)))))]
               msgId],
            None)"
    if "SuccessAction res = Some sa" "url_Parse_Host E callback = Some host"
      "5 \<le> length (PaymentHash invoice)" for sa host
    using confirmationTask_runs [OF that(2) that(3), of u metadata encodedLnurl msgId res preimage]
      that(1) by simp
  have aes: "successText E sa bp = Decipher E sa bp" if "Tag sa = ''aes''" for sa bp
    using that by (simp add: successText_def)
  from order full aes confirmationTask_faults [of E callback invoice u metadata encodedLnurl msgId
      res preimage]
  show ?thesis by blast
qed

theorem document_before_success_witness:
  "confirmationTask (sampleEnv\<lparr>Decipher := \<lambda>sa p. ([], Some (Error ''bad key''))\<rparr>) sampleUser
     ''https://example.com/cb'' ''[]'' ''lnurl1'' 3
     \<lparr>Status = ''OK'', Reason = [], PR = ''lnbc1'',
      SuccessAction = Some \<lparr>Tag = ''aes'', Message = [], Description = ''d'', URL = []\<rparr>\<rparr>
     \<lparr>MSatoshi = 1000, DescriptionHash = [], PaymentHash = ''0011223344''\<rparr> ''00ff'' =
   ([BotSend (DocumentConfig 1 ''lnurl1.json'' (bytesOf ''[]'') ''text/json'' []),
     Sleep 2,
     NotifyAsReply LNURLPAYSUCCESS
       [(''Domain'', Str ''example.com''), (''Text'', Str []), (''URL'', Str []),
        (''DecipherError'', ErrorValue (Some (Error ''bad key'')))] 3],
    None)"
proof -
  let ?E = "sampleEnv\<lparr>Decipher := \<lambda>sa p. ([], Some (Error ''bad key''))\<rparr>"
  let ?res = "\<lparr>Status = ''OK'', Reason = [], PR = ''lnbc1'',
      SuccessAction = Some \<lparr>Tag = ''aes'', Message = [], Description = ''d'', URL = []\<rparr>\<rparr>"
  let ?inv = "\<lparr>MSatoshi = 1000, DescriptionHash = [], PaymentHash = ''0011223344''\<rparr>"
  note th = document_before_success [of ?E sampleUser "''https://example.com/cb''" "''[]''"
      "''lnurl1''" 3 ?res ?inv "''00ff''"]
  have p: "url_Parse_Host ?E ''https://example.com/cb'' = Some ''example.com'' \<and>
      5 \<le> length (PaymentHash ?inv)"
    by (simp add: sampleEnv_def)
  have s: "SuccessAction ?res =
      Some \<lparr>Tag = ''aes'', Message = [], Description = ''d'', URL = []\<rparr>" by simp
  from th s p have "confirmationTask ?E sampleUser ''https://example.com/cb'' ''[]'' ''lnurl1'' 3
      ?res ?inv ''00ff'' =
           ([BotSend (DocumentConfig (ChatId sampleUser) (''lnurl1'' @ ''.json'') (bytesOf ''[]'')
               ''text/json''
               (translateTemplate ?E LNURLPAYMETADATA (Locale sampleUser)
                  [(''Domain'', Str ''example.com''), (''LNURL'', Str ''lnurl1''),
                   (''Hash'', Str (PaymentHash ?inv)),
                   (''HashFirstChars'', Str (take 5 (PaymentHash ?inv)))])),
             Sleep 2,
             NotifyAsReply LNURLPAYSUCCESS
               [(''Domain'', Str ''example.com''),
                (''Text'', Str (fst (successText ?E
                   \<lparr>Tag = ''aes'', Message = [], Description = ''d'', URL = []\<rparr>
                   (fst (hexDecodeString ''00ff''))))),
                (''URL'', Str (URL \<lparr>Tag = ''aes'', Message = [], Description = ''d'', URL = []\<rparr>)),
                (''DecipherError'',
                 ErrorValue (snd (successText ?E
                   \<lparr>Tag = ''aes'', Message = [], Description = ''d'', URL = []\<rparr>
                   (fst (hexDecodeString ''00ff'')))))]
               3],
            None)"
    by blast
  then show ?thesis
    by (simp add: successText_def translateTemplate_def sampleEnv_def sampleUser_def)
qed

end
